theory Spec2Isabelle
  imports Complex_Main
begin

section \<open>The executor's job driver\<close>

text \<open>
  A shallow embedding of \<^verbatim>\<open>compute_horde_executor/executor/job_driver.py\<close>.
  The driver is a single cooperative task; every \<^verbatim>\<open>await\<close> either returns a value
  or raises, so a coroutine becomes a function from the driver's state to a result
  (\<open>Inl\<close> the exception raised, \<open>Inr\<close> the value returned) and the state it leaves.
  Everything the driver does to its collaborators (the deadline timer, the runner, the
  miner client, the logger) is appended, in order, to a trace kept in the state.
\<close>

subsection \<open>Protocol constants\<close>

datatype JobStage = UNKNOWN | EXECUTOR_STARTUP | VOLUME_DOWNLOAD | EXECUTION | RESULT_UPLOAD

text \<open>
  Modelled from the spec: \<^verbatim>\<open>compute_horde.protocol_consts\<close> is imported, not part of
  these sources. The reasons are the ones section 6 of the specification lists;
  \<open>GENERIC_ERROR\<close> stands for the catch-all horde reason, which is also what a
  \<^verbatim>\<open>HordeError\<close> built without a reason carries.
\<close>

datatype JobFailureReason = TIMEOUT | NONZERO_RETURN_CODE | DOWNLOAD_FAILED | UPLOAD_FAILED

datatype HordeFailureReason = SECURITY_CHECK_FAILED | GENERIC_ERROR

datatype JobParticipantType = VALIDATOR | MINER | EXECUTOR

subsection \<open>Python text values\<close>

text \<open>
  \<^verbatim>\<open>get_docker_container_outputs\<close> is imported from the executor's utils, which are not
  part of these sources, so the type of the streams it returns is left open: a stream is
  either a \<^verbatim>\<open>str\<close> or a \<^verbatim>\<open>bytes\<close> value. The operations the driver applies to a
  stream are modelled with Python's dynamic typing: \<^verbatim>\<open>.decode()\<close> exists on \<^verbatim>\<open>bytes\<close>
  only, and \<^verbatim>\<open>"text" in stream\<close> as well as \<^verbatim>\<open>stream.rpartition(" ")\<close> accept a
  \<^verbatim>\<open>str\<close> argument on a \<^verbatim>\<open>str\<close> only.
\<close>

datatype py_text = PyStr string | PyBytes string

datatype ctx_value = CInt int | CText py_text | CStage JobStage

type_synonym FailureContext = "(string \<times> ctx_value) list"

subsection \<open>Exceptions\<close>

record job_error =
  je_message :: string
  je_reason :: JobFailureReason
  je_context :: "FailureContext option"

record horde_error =
  he_message :: string
  he_reason :: HordeFailureReason
  he_context :: "FailureContext option"

text \<open>
  The exceptions of class \<^verbatim>\<open>Exception\<close> that reach the driver. \<open>OtherException\<close>
  stands for any exception class the driver does not name. What lies outside that class
  (the cancellation of the driver's own task, the exit of the interpreter) is handled by
  no clause of the driver and is not part of the model.
\<close>

datatype exn =
    JobError job_error
  | HordeError horde_error
  | TimeoutError
  | AssertionError string
  | AttributeError string
  | TypeError string
  | InvalidVersion string
  | OtherException string

text \<open>\<^verbatim>\<open>JobError(message, reason)\<close> and \<^verbatim>\<open>HordeError(message, reason=..., context=...)\<close>.\<close>

definition new_JobError :: "string \<Rightarrow> JobFailureReason \<Rightarrow> exn" where
  "new_JobError msg rsn = JobError \<lparr>je_message = msg, je_reason = rsn, je_context = None\<rparr>"

definition new_HordeError :: "string \<Rightarrow> HordeFailureReason \<Rightarrow> FailureContext option \<Rightarrow> exn" where
  "new_HordeError msg rsn ctx = HordeError \<lparr>he_message = msg, he_reason = rsn, he_context = ctx\<rparr>"

subsection \<open>Messages\<close>

record TimingDetails =
  allowed_leeway :: real
  download_time_limit :: real
  execution_time_limit :: real
  streaming_start_time_limit :: real
  upload_time_limit :: real

text \<open>
  Modelled from the spec: the declaration of the streaming details is not part of these
  sources. The specification speaks of the coordinator having supplied, or not, each of
  \<^verbatim>\<open>executor_ip\<close> and \<^verbatim>\<open>public_key\<close>, so both are optional here.
\<close>

record StreamingDetails =
  executor_ip :: "string option"
  public_key :: "string option"

record V0InitialJobRequest =
  docker_image :: string
  timeout_seconds :: "real option"
  executor_timing :: "TimingDetails option"
  streaming_details :: "StreamingDetails option"

text \<open>The full payload is opaque to the driver: it is handed to the runner as it is.\<close>

datatype V0JobRequest = V0JobRequest string

datatype MachineSpecs = MachineSpecs string

record ExecutionResult =
  return_code :: int
  stdout :: string
  stderr :: string
  timed_out :: bool

record JobResult =
  jr_payload :: string
  jr_specs :: "MachineSpecs option"

record V0JobFailedRequest =
  jf_job_uuid :: string
  jf_stage :: JobStage
  jf_reason :: JobFailureReason
  jf_message :: string
  docker_process_exit_status :: "int option"
  docker_process_stdout :: "string option"
  docker_process_stderr :: "string option"
  jf_context :: "FailureContext option"

record V0HordeFailedRequest =
  hf_job_uuid :: string
  reported_by :: JobParticipantType
  hf_reason :: HordeFailureReason
  hf_message :: string
  hf_context :: "FailureContext option"

text \<open>What the miner client is asked to send; \<^verbatim>\<open>send_result\<close> goes out as the finished request.\<close>

datatype outbound =
    V0ExecutorReadyRequest
  | V0StreamingJobReadyRequest string
  | V0VolumesReadyRequest
  | V0ExecutionDoneRequest
  | V0JobFinishedRequest JobResult
  | JobFailed V0JobFailedRequest
  | HordeFailed V0HordeFailedRequest

subsection \<open>State and trace\<close>

datatype runner_call =
    PrepareInitial V0InitialJobRequest
  | GenerateStreamingCertificate string "string option"
  | PrepareFull V0JobRequest
  | DownloadVolume
  | StartJobEnter
  | StartJobExit
  | UploadResults
  | Clean

datatype event =
    SetTimeout real
  | ExtendTimeout real
  | EnterStage JobStage
  | Runner runner_call
  | Send outbound
  | LogError exn
  | CaptureException exn
  | LogCleanupFailed exn

text \<open>The attributes of the runner that the driver reads.\<close>

record runner =
  is_streaming_job :: bool
  executor_certificate :: "string option"
  execution_result :: "ExecutionResult option"

record driver =
  runner :: runner
  specs :: "MachineSpecs option"
  current_stage :: JobStage
  trace :: "event list"

type_synonym 'a action = "driver \<Rightarrow> (exn + 'a) \<times> driver"

text \<open>
  The collaborators of one run. An awaited value is its outcome; a method of the runner
  is a function on the runner's attributes that returns or raises.
  \<^item> \<open>get_machine_specs\<close> and the two probe containers (exit status, stdout, stderr) are
    the executor's utils and the container runtime;
  \<^item> \<open>initial_msg\<close> and \<open>full_payload\<close> are the inbound values of the miner client;
  \<^item> \<open>start_job_exit\<close> is the exit of the \<^verbatim>\<open>start_job\<close> context manager: it receives the
    exception raised inside the scope, if any, and returns whether it suppresses it;
  \<^item> \<open>download_expired\<close>, \<open>execution_expired\<close> and \<open>upload_expired\<close> say that
    \<^verbatim>\<open>time_left\<close> was not positive when the stage was entered: \<^verbatim>\<open>asyncio.wait_for\<close>
    then cancels the stage's coroutine before it runs;
  \<^item> \<open>wrap_unhandled\<close> and \<open>add_context\<close> are the methods of \<^verbatim>\<open>HordeError\<close>, defined in
    \<^verbatim>\<open>compute_horde.job_errors\<close>.
\<close>

record env =
  DEBUG_NO_GPU_MODE :: bool
  startup_time_limit :: real
  job_uuid :: string
  get_machine_specs :: "exn + MachineSpecs"
  cve_2022_0492_container :: "exn + int \<times> py_text \<times> py_text"
  nvidia_toolkit_container :: "exn + int \<times> py_text \<times> py_text"
  initial_msg :: "exn + V0InitialJobRequest"
  full_payload :: "exn + V0JobRequest"
  prepare_initial :: "V0InitialJobRequest \<Rightarrow> runner \<Rightarrow> (exn + unit) \<times> runner"
  generate_streaming_certificate :: "string \<Rightarrow> string option \<Rightarrow> runner \<Rightarrow> (exn + unit) \<times> runner"
  prepare_full :: "V0JobRequest \<Rightarrow> runner \<Rightarrow> (exn + unit) \<times> runner"
  download_volume :: "runner \<Rightarrow> (exn + unit) \<times> runner"
  start_job_enter :: "runner \<Rightarrow> (exn + unit) \<times> runner"
  start_job_exit :: "exn option \<Rightarrow> runner \<Rightarrow> (exn + bool) \<times> runner"
  upload_results :: "runner \<Rightarrow> (exn + JobResult) \<times> runner"
  clean :: "runner \<Rightarrow> (exn + unit) \<times> runner"
  download_expired :: bool
  execution_expired :: bool
  upload_expired :: bool
  wrap_unhandled :: "exn \<Rightarrow> horde_error"
  add_context :: "horde_error \<Rightarrow> FailureContext \<Rightarrow> horde_error"

subsection \<open>Control flow\<close>

definition returns :: "'a \<Rightarrow> 'a action" where
  "returns x s = (Inr x, s)"

definition raise :: "exn \<Rightarrow> 'a action" where
  "raise e s = (Inl e, s)"

text \<open>\<open>bind_io m f\<close> is \<^verbatim>\<open>x = m; f(x)\<close>, and \<open>then_io m n\<close> is \<^verbatim>\<open>m; n\<close>.\<close>

definition bind_io :: "'a action \<Rightarrow> ('a \<Rightarrow> 'b action) \<Rightarrow> 'b action" where
  "bind_io m f s = (case m s of (Inl e, s') \<Rightarrow> (Inl e, s') | (Inr x, s') \<Rightarrow> f x s')"

definition then_io :: "unit action \<Rightarrow> 'a action \<Rightarrow> 'a action" where
  "then_io m n = bind_io m (\<lambda>_. n)"

definition gets :: "(driver \<Rightarrow> 'a) \<Rightarrow> 'a action" where
  "gets f s = (Inr (f s), s)"

definition emit :: "event \<Rightarrow> unit action" where
  "emit ev s = (Inr (), s\<lparr>trace := trace s @ [ev]\<rparr>)"

text \<open>An awaited value or a check of the environment: its outcome, the state untouched.\<close>

definition await :: "exn + 'a \<Rightarrow> 'a action" where
  "await r s = (r, s)"

text \<open>A call of a method of the runner: the call is traced, then it returns or raises.\<close>

definition call_runner :: "runner_call \<Rightarrow> (runner \<Rightarrow> (exn + 'a) \<times> runner) \<Rightarrow> 'a action" where
  "call_runner c f s =
     (case f (runner s) of (r, rn) \<Rightarrow> (r, s\<lparr>runner := rn, trace := trace s @ [Runner c]\<rparr>))"

text \<open>\<^verbatim>\<open>try: m  except Exception as e: h(e)\<close>.\<close>

definition try_except :: "'a action \<Rightarrow> (exn \<Rightarrow> 'a action) \<Rightarrow> 'a action" where
  "try_except m h s = (case m s of (Inl e, s') \<Rightarrow> h e s' | (Inr x, s') \<Rightarrow> (Inr x, s'))"

text \<open>\<^verbatim>\<open>try: m  except TimeoutError as e: raise e' from e\<close>.\<close>

definition except_TimeoutError :: "'a action \<Rightarrow> exn \<Rightarrow> 'a action" where
  "except_TimeoutError m e' =
     try_except m (\<lambda>e. case e of TimeoutError \<Rightarrow> raise e' | _ \<Rightarrow> raise e)"

text \<open>
  \<^verbatim>\<open>try: m  finally: fin\<close>: \<open>fin\<close> runs whatever \<open>m\<close> did; an exception of \<open>fin\<close>
  replaces the outcome of \<open>m\<close>.
\<close>

definition try_finally :: "'a action \<Rightarrow> unit action \<Rightarrow> 'a action" where
  "try_finally m fin s =
     (case m s of (r, s') \<Rightarrow>
        (case fin s' of (Inl e, s'') \<Rightarrow> (Inl e, s'') | (Inr _, s'') \<Rightarrow> (r, s'')))"

text \<open>
  \<^verbatim>\<open>asyncio.wait_for(m, time_left)\<close>: with no time left the coroutine is cancelled before
  it starts and \<^verbatim>\<open>TimeoutError\<close> is raised; otherwise it runs, and the expiry of the
  deadline is the \<^verbatim>\<open>TimeoutError\<close> of one of its awaits.
\<close>

definition wait_for :: "bool \<Rightarrow> 'a action \<Rightarrow> 'a action" where
  "wait_for expired m = (if expired then raise TimeoutError else m)"

subsection \<open>Python string operations\<close>

text \<open>\<^verbatim>\<open>str(n)\<close> for an integer, as the f-strings of the driver print it.\<close>

function str_nat :: "nat \<Rightarrow> string" where
  "str_nat n =
     (if n < 10 then [''0123456789'' ! n]
      else str_nat (n div 10) @ [''0123456789'' ! (n mod 10)])"
  by pat_completeness auto
termination
  by (relation "measure id") auto

declare str_nat.simps [simp del]

definition str_int :: "int \<Rightarrow> string" where
  "str_int i = (if i < 0 then CHR ''-'' # str_nat (nat (- i)) else str_nat (nat i))"

fun startswith :: "string \<Rightarrow> string \<Rightarrow> bool" where
  "startswith [] cs = True"
| "startswith (p # ps) [] = False"
| "startswith (p # ps) (c # cs) = (p = c \<and> startswith ps cs)"

text \<open>\<^verbatim>\<open>needle in text\<close> on two \<^verbatim>\<open>str\<close> values.\<close>

fun str_in :: "string \<Rightarrow> string \<Rightarrow> bool" where
  "str_in needle [] = (needle = [])"
| "str_in needle (c # cs) = (startswith needle (c # cs) \<or> str_in needle cs)"

text \<open>\<^verbatim>\<open>stream.decode()\<close>: a \<^verbatim>\<open>str\<close> has no such attribute.\<close>

definition py_decode :: "py_text \<Rightarrow> exn + py_text" where
  "py_decode t =
     (case t of
        PyBytes b \<Rightarrow> Inr (PyStr b)
      | PyStr _ \<Rightarrow> Inl (AttributeError ''decode''))"

text \<open>\<^verbatim>\<open>needle in stream\<close> for a \<^verbatim>\<open>str\<close> needle: a \<^verbatim>\<open>bytes\<close> stream refuses it.\<close>

definition py_contains :: "string \<Rightarrow> py_text \<Rightarrow> exn + bool" where
  "py_contains needle t =
     (case t of
        PyStr s \<Rightarrow> Inr (str_in needle s)
      | PyBytes _ \<Rightarrow> Inl (TypeError ''a bytes-like object is required''))"

text \<open>
  \<^verbatim>\<open>splitlines()\<close>: the text is cut at each line boundary and the boundaries are
  dropped. A carriage return followed by a line feed is one boundary. A \<^verbatim>\<open>str\<close> also
  ends a line at a vertical tab, a form feed, a file, group or record separator and
  at the next-line character; a \<^verbatim>\<open>bytes\<close> value only at line feeds and carriage returns.
\<close>

definition str_line_boundary :: "char \<Rightarrow> bool" where
  "str_line_boundary c =
     (c \<in> set [CHR 0x0A, CHR 0x0B, CHR 0x0C, CHR 0x1C, CHR 0x1D, CHR 0x1E, CHR 0x85])"

definition bytes_line_boundary :: "char \<Rightarrow> bool" where
  "bytes_line_boundary c = (c = CHR 0x0A)"

fun splitlines_from :: "(char \<Rightarrow> bool) \<Rightarrow> string \<Rightarrow> bool \<Rightarrow> string \<Rightarrow> string list" where
  "splitlines_from boundary cur after_cr [] = (if cur = [] then [] else [cur])"
| "splitlines_from boundary cur after_cr (c # cs) =
     (if after_cr \<and> c = CHR 0x0A then splitlines_from boundary cur False cs
      else if c = CHR 0x0D then cur # splitlines_from boundary [] True cs
      else if boundary c then cur # splitlines_from boundary [] False cs
      else splitlines_from boundary (cur @ [c]) False cs)"

definition splitlines :: "(char \<Rightarrow> bool) \<Rightarrow> string \<Rightarrow> string list" where
  "splitlines boundary text = splitlines_from boundary [] False text"

text \<open>\<^verbatim>\<open>line.rpartition(" ")[2]\<close>: what follows the last space, the whole line without one.\<close>

definition rpartition_tail :: "string \<Rightarrow> string" where
  "rpartition_tail line = rev (takeWhile (\<lambda>c. c \<noteq> CHR '' '') (rev line))"

subsection \<open>Versions\<close>

text \<open>
  \<^verbatim>\<open>packaging.version\<close> is a third-party library. The model covers the versions that are
  a release segment only, \<^verbatim>\<open>N(.N)*\<close>, which is what the toolkit prints: such a version is
  its tuple of numbers, compared as tuples once trailing zeros are dropped. Any other
  text is taken as unparsable.
\<close>

definition is_digit :: "char \<Rightarrow> bool" where
  "is_digit c = (c \<in> set ''0123456789'')"

definition digit_value :: "char \<Rightarrow> nat" where
  "digit_value c = length (takeWhile (\<lambda>d. d \<noteq> c) ''0123456789'')"

definition nat_of_digits :: "string \<Rightarrow> nat" where
  "nat_of_digits ds = foldl (\<lambda>n c. 10 * n + digit_value c) 0 ds"

fun split_dots :: "string \<Rightarrow> string \<Rightarrow> string list" where
  "split_dots cur [] = [cur]"
| "split_dots cur (c # cs) =
     (if c = CHR ''.'' then cur # split_dots [] cs else split_dots (cur @ [c]) cs)"

definition parse_version :: "string \<Rightarrow> exn + nat list" where
  "parse_version text =
     (let parts = split_dots [] text
      in if list_all (\<lambda>p. p \<noteq> [] \<and> list_all is_digit p) parts
         then Inr (map nat_of_digits parts)
         else Inl (InvalidVersion text))"

definition strip_zeros :: "nat list \<Rightarrow> nat list" where
  "strip_zeros v = rev (dropWhile (\<lambda>n. n = 0) (rev v))"

fun tuple_less :: "nat list \<Rightarrow> nat list \<Rightarrow> bool" where
  "tuple_less [] [] = False"
| "tuple_less [] (y # ys) = True"
| "tuple_less (x # xs) [] = False"
| "tuple_less (x # xs) (y # ys) = (x < y \<or> (x = y \<and> tuple_less xs ys))"

definition version_ge :: "nat list \<Rightarrow> nat list \<Rightarrow> bool" where
  "version_ge v w = (\<not> tuple_less (strip_zeros v) (strip_zeros w))"

definition NVIDIA_CONTAINER_TOOLKIT_MINIMUM_SAFE_VERSION :: "nat list" where
  "NVIDIA_CONTAINER_TOOLKIT_MINIMUM_SAFE_VERSION = [1, 17, 4]"

subsection \<open>The security checks\<close>

text \<open>
  Each check is a function of what its probe container produced: the exit status
  \<^verbatim>\<open>results["StatusCode"]\<close> and the two streams, or the exception of the container runtime.
  The context dictionaries are built entry by entry, so a failing \<^verbatim>\<open>.decode()\<close> is raised
  before the \<^verbatim>\<open>HordeError\<close> exists.
\<close>

definition run_cve_2022_0492_check_or_fail :: "exn + int \<times> py_text \<times> py_text \<Rightarrow> exn + unit" where
  "run_cve_2022_0492_check_or_fail container =
     (case container of
        Inl e \<Rightarrow> Inl e
      | Inr (status, out, err) \<Rightarrow>
          if status \<noteq> 0 then
            (case py_decode out of
               Inl e \<Rightarrow> Inl e
             | Inr out' \<Rightarrow>
                 (case py_decode err of
                    Inl e \<Rightarrow> Inl e
                  | Inr err' \<Rightarrow>
                      Inl (new_HordeError ''CVE-2022-0492 check failed'' SECURITY_CHECK_FAILED
                             (Some [(''return_code'', CInt status),
                                    (''stdout'', CText out'),
                                    (''stderr'', CText err')]))))
          else
            (case py_contains ''Contained: cannot escape via CVE-2022-0492'' out of
               Inl e \<Rightarrow> Inl e
             | Inr True \<Rightarrow> Inr ()
             | Inr False \<Rightarrow>
                 Inl (new_HordeError
                        (''CVE-HordeFailureReason-0492 check failed: '' @ [CHR 0x22]
                           @ ''Contained: cannot escape via CVE-2022-0492'' @ [CHR 0x22]
                           @ '' not in stdout.'')
                        SECURITY_CHECK_FAILED
                        (Some [(''stdout'', CText out), (''stderr'', CText err)]))))"

text \<open>\<^verbatim>\<open>stdout.splitlines()\<close> works on both kinds of stream; \<^verbatim>\<open>lines[0].rpartition(" ")\<close> does not.\<close>

definition py_splitlines :: "py_text \<Rightarrow> py_text list" where
  "py_splitlines t =
     (case t of
        PyStr s \<Rightarrow> map PyStr (splitlines str_line_boundary s)
      | PyBytes b \<Rightarrow> map PyBytes (splitlines bytes_line_boundary b))"

definition py_rpartition_tail :: "py_text \<Rightarrow> exn + string" where
  "py_rpartition_tail t =
     (case t of
        PyStr s \<Rightarrow> Inr (rpartition_tail s)
      | PyBytes _ \<Rightarrow> Inl (TypeError ''a bytes-like object is required''))"

text \<open>\<^verbatim>\<open>str(version)\<close>: the numbers of the release joined by dots.\<close>

fun str_version :: "nat list \<Rightarrow> string" where
  "str_version [] = []"
| "str_version [n] = str_nat n"
| "str_version (n # m # ms) = str_nat n @ ''.'' @ str_version (m # ms)"

definition run_nvidia_toolkit_version_check_or_fail ::
    "exn + int \<times> py_text \<times> py_text \<Rightarrow> exn + unit" where
  "run_nvidia_toolkit_version_check_or_fail container =
     (case container of
        Inl e \<Rightarrow> Inl e
      | Inr (status, out, err) \<Rightarrow>
          if status \<noteq> 0 then
            Inl (new_HordeError
                   (''nvidia-container-toolkit check failed: exit code '' @ str_int status)
                   SECURITY_CHECK_FAILED
                   (Some [(''return_code'', CInt status),
                          (''stdout'', CText out),
                          (''stderr'', CText err)]))
          else
            (case py_splitlines out of
               [] \<Rightarrow>
                 Inl (new_HordeError
                        ''nvidia-container-toolkit check failed: no output from nvidia-container-toolkit''
                        SECURITY_CHECK_FAILED
                        (Some [(''return_code'', CInt status),
                               (''stdout'', CText out),
                               (''stderr'', CText err)]))
             | line # _ \<Rightarrow>
                 (case py_rpartition_tail line of
                    Inl e \<Rightarrow> Inl e
                  | Inr version \<Rightarrow>
                      (case parse_version version of
                         Inl e \<Rightarrow> Inl e
                       | Inr v \<Rightarrow>
                           if version_ge v NVIDIA_CONTAINER_TOOLKIT_MINIMUM_SAFE_VERSION
                           then Inr ()
                           else
                             (case py_decode out of
                                Inl e \<Rightarrow> Inl e
                              | Inr out' \<Rightarrow>
                                  (case py_decode err of
                                     Inl e \<Rightarrow> Inl e
                                   | Inr err' \<Rightarrow>
                                       Inl (new_HordeError
                                              (''Outdated NVIDIA Container Toolkit detected:''
                                                 @ version @ [CHR 0x22] @ '' not >= ''
                                                 @ str_version NVIDIA_CONTAINER_TOOLKIT_MINIMUM_SAFE_VERSION)
                                              SECURITY_CHECK_FAILED
                                              (Some [(''return_code'', CInt status),
                                                     (''stdout'', CText out'),
                                                     (''stderr'', CText err')]))))))))"

text \<open>\<^verbatim>\<open>run_security_checks_or_fail\<close>: the toolkit check is skipped in the no-GPU debug mode.\<close>

definition run_security_checks_or_fail :: "env \<Rightarrow> unit action" where
  "run_security_checks_or_fail env =
     then_io (await (run_cve_2022_0492_check_or_fail (cve_2022_0492_container env)))
       (if \<not> DEBUG_NO_GPU_MODE env
        then await (run_nvidia_toolkit_version_check_or_fail (nvidia_toolkit_container env))
        else returns ())"

subsection \<open>The stages\<close>

definition set_deadline :: "real \<Rightarrow> unit action" where
  "set_deadline seconds = emit (SetTimeout seconds)"

definition extend_deadline :: "real \<Rightarrow> unit action" where
  "extend_deadline seconds = emit (ExtendTimeout seconds)"

definition enter_stage :: "JobStage \<Rightarrow> unit action" where
  "enter_stage stage s =
     (Inr (), s\<lparr>current_stage := stage, trace := trace s @ [EnterStage stage]\<rparr>)"

text \<open>
  Modelled from the spec: the miner client is not part of these sources. Section 4.2 of
  the specification gives its outbound operations as fire-and-forget and ordered, so a
  send appends the message to the trace and returns.
\<close>

definition send :: "outbound \<Rightarrow> unit action" where
  "send m = emit (Send m)"

definition set_specs :: "MachineSpecs \<Rightarrow> unit action" where
  "set_specs sp s = (Inr (), s\<lparr>specs := Some sp\<rparr>)"

definition startup_stage :: "env \<Rightarrow> V0InitialJobRequest action" where
  "startup_stage env =
     then_io (enter_stage EXECUTOR_STARTUP)
    (then_io (if \<not> DEBUG_NO_GPU_MODE env
              then bind_io (await (get_machine_specs env)) set_specs
              else returns ())
    (then_io (run_security_checks_or_fail env)
    (bind_io (await (initial_msg env)) (\<lambda>initial_job_request.
     then_io (call_runner (PrepareInitial initial_job_request)
                (prepare_initial env initial_job_request))
    (then_io (send V0ExecutorReadyRequest)
    (then_io (case streaming_details initial_job_request of
                None \<Rightarrow> returns ()
              | Some details \<Rightarrow>
                  (case executor_ip details of
                     None \<Rightarrow> raise (AssertionError [])
                   | Some ip \<Rightarrow>
                       call_runner (GenerateStreamingCertificate ip (public_key details))
                         (generate_streaming_certificate env ip (public_key details))))
             (returns initial_job_request)))))))"

definition download_stage :: "env \<Rightarrow> unit action" where
  "download_stage env =
     then_io (enter_stage VOLUME_DOWNLOAD)
    (bind_io (await (full_payload env)) (\<lambda>full_job_request.
     then_io (call_runner (PrepareFull full_job_request) (prepare_full env full_job_request))
    (then_io (call_runner DownloadVolume (download_volume env))
             (send V0VolumesReadyRequest))))"

definition fail_if_execution_unsuccessful :: "unit action" where
  "fail_if_execution_unsuccessful s =
     (case execution_result (runner s) of
        None \<Rightarrow> raise (AssertionError ''No execution result'') s
      | Some result \<Rightarrow>
          if timed_out result then
            raise (new_JobError ''Job container timed out during execution'' TIMEOUT) s
          else if return_code result \<noteq> 0 then
            raise (new_JobError
                     (''Job container exited with non-zero exit code: ''
                        @ str_int (return_code result))
                     NONZERO_RETURN_CODE) s
          else returns () s)"

text \<open>
  \<^verbatim>\<open>async with self.runner.start_job(): body\<close>. Once the scope is entered its exit always
  runs; an exception of the exit replaces the one of the body.
\<close>

definition with_start_job :: "env \<Rightarrow> unit action \<Rightarrow> unit action" where
  "with_start_job env body s =
     (case call_runner StartJobEnter (start_job_enter env) s of
        (Inl e, s1) \<Rightarrow> (Inl e, s1)
      | (Inr _, s1) \<Rightarrow>
          (case body s1 of
             (Inr _, s2) \<Rightarrow>
               (case call_runner StartJobExit (start_job_exit env None) s2 of
                  (Inl e', s3) \<Rightarrow> (Inl e', s3)
                | (Inr _, s3) \<Rightarrow> (Inr (), s3))
           | (Inl e, s2) \<Rightarrow>
               (case call_runner StartJobExit (start_job_exit env (Some e)) s2 of
                  (Inl e', s3) \<Rightarrow> (Inl e', s3)
                | (Inr suppress, s3) \<Rightarrow> (if suppress then Inr () else Inl e, s3))))"

definition execution_stage :: "env \<Rightarrow> unit action" where
  "execution_stage env =
     then_io (enter_stage EXECUTION)
    (then_io (with_start_job env
                (bind_io (gets (\<lambda>s. is_streaming_job (runner s))) (\<lambda>streaming.
                   if streaming then
                     bind_io (gets (\<lambda>s. executor_certificate (runner s))) (\<lambda>certificate.
                       case certificate of
                         None \<Rightarrow> raise (AssertionError ''Executor certificate is missing.'')
                       | Some c \<Rightarrow> send (V0StreamingJobReadyRequest c))
                   else returns ())))
    (then_io fail_if_execution_unsuccessful
             (send V0ExecutionDoneRequest)))"

definition upload_stage :: "env \<Rightarrow> unit action" where
  "upload_stage env =
     then_io (enter_stage RESULT_UPLOAD)
    (bind_io (call_runner UploadResults (upload_results env)) (\<lambda>job_result.
     bind_io (gets specs) (\<lambda>sp.
       send (V0JobFinishedRequest (job_result\<lparr>jr_specs := sp\<rparr>)))))"

subsection \<open>The driver\<close>

text \<open>
  \<^verbatim>\<open>_execute\<close> is \<open>execute_stages\<close>, cut at the comments of the source into the block
  that runs the startup stage, the block that derives the deadline from the initial
  request, and one block for each later stage.
\<close>

definition execute_startup :: "env \<Rightarrow> V0InitialJobRequest action" where
  "execute_startup env =
     then_io (set_deadline (startup_time_limit env))
       (except_TimeoutError (startup_stage env)
          (new_HordeError ''Timed out waiting for initial job details from miner''
             GENERIC_ERROR None))"

definition execute_timing :: "V0InitialJobRequest \<Rightarrow> unit action" where
  "execute_timing initial_job_request =
     (case executor_timing initial_job_request of
        Some timing_details \<Rightarrow> set_deadline (allowed_leeway timing_details)
      | None \<Rightarrow>
          (case timeout_seconds initial_job_request of
             Some seconds \<Rightarrow> set_deadline seconds
           | None \<Rightarrow>
               raise (new_HordeError
                        ''No timing received: either timeout_seconds or timing_details must be set''
                        GENERIC_ERROR None)))"

definition execute_download :: "env \<Rightarrow> TimingDetails option \<Rightarrow> unit action" where
  "execute_download env timing_details =
     then_io (case timing_details of
                Some td \<Rightarrow> extend_deadline (download_time_limit td)
              | None \<Rightarrow> returns ())
       (except_TimeoutError (wait_for (download_expired env) (download_stage env))
          (new_JobError ''Download time exceeded'' TIMEOUT))"

definition execute_execution :: "env \<Rightarrow> TimingDetails option \<Rightarrow> unit action" where
  "execute_execution env timing_details =
     then_io (case timing_details of
                Some td \<Rightarrow>
                  then_io (extend_deadline (execution_time_limit td))
                    (bind_io (gets (\<lambda>s. is_streaming_job (runner s))) (\<lambda>streaming.
                       if streaming then extend_deadline (streaming_start_time_limit td)
                       else returns ()))
              | None \<Rightarrow> returns ())
       (except_TimeoutError (wait_for (execution_expired env) (execution_stage env))
          (new_JobError ''Execution time exceeded'' TIMEOUT))"

definition execute_upload :: "env \<Rightarrow> TimingDetails option \<Rightarrow> unit action" where
  "execute_upload env timing_details =
     then_io (case timing_details of
                Some td \<Rightarrow> extend_deadline (upload_time_limit td)
              | None \<Rightarrow> returns ())
       (except_TimeoutError (wait_for (upload_expired env) (upload_stage env))
          (new_JobError ''Upload time exceeded'' TIMEOUT))"

definition execute_stages :: "env \<Rightarrow> unit action" where
  "execute_stages env =
     bind_io (execute_startup env) (\<lambda>initial_job_request.
       then_io (execute_timing initial_job_request)
      (then_io (execute_download env (executor_timing initial_job_request))
      (then_io (execute_execution env (executor_timing initial_job_request))
               (execute_upload env (executor_timing initial_job_request)))))"

definition send_job_failed ::
    "env \<Rightarrow> string \<Rightarrow> JobFailureReason \<Rightarrow> FailureContext option \<Rightarrow> unit action" where
  "send_job_failed env msg rsn ctx s =
     send (JobFailed
             \<lparr>jf_job_uuid = job_uuid env,
              jf_stage = current_stage s,
              jf_reason = rsn,
              jf_message = msg,
              docker_process_exit_status = map_option return_code (execution_result (runner s)),
              docker_process_stdout = map_option stdout (execution_result (runner s)),
              docker_process_stderr = map_option stderr (execution_result (runner s)),
              jf_context = ctx\<rparr>) s"

definition send_horde_failed ::
    "env \<Rightarrow> string \<Rightarrow> HordeFailureReason \<Rightarrow> FailureContext option \<Rightarrow> unit action" where
  "send_horde_failed env msg rsn ctx =
     send (HordeFailed
             \<lparr>hf_job_uuid = job_uuid env,
              reported_by = EXECUTOR,
              hf_reason = rsn,
              hf_message = msg,
              hf_context = ctx\<rparr>)"

text \<open>The two \<^verbatim>\<open>except\<close> clauses of \<^verbatim>\<open>execute\<close>, in the order of the source.\<close>

definition execute_except :: "env \<Rightarrow> exn \<Rightarrow> unit action" where
  "execute_except env ex =
     (case ex of
        JobError e \<Rightarrow>
          then_io (emit (LogError ex))
            (send_job_failed env (je_message e) (je_reason e) (je_context e))
      | _ \<Rightarrow>
          then_io (emit (CaptureException ex))
            (bind_io (gets current_stage) (\<lambda>stage.
               let e = add_context env (wrap_unhandled env ex) [(''stage'', CStage stage)]
               in then_io (emit (LogError (HordeError e)))
                    (send_horde_failed env (he_message e) (he_reason e) (he_context e)))))"

definition execute_finally :: "env \<Rightarrow> unit action" where
  "execute_finally env =
     try_except (call_runner Clean (clean env)) (\<lambda>e. emit (LogCleanupFailed e))"

text \<open>
  \<^verbatim>\<open>execute\<close>, inside the scope of the miner client: a run starts when the connection
  to the miner is open.
\<close>

definition execute :: "env \<Rightarrow> unit action" where
  "execute env =
     try_finally (try_except (execute_stages env) (execute_except env)) (execute_finally env)"

text \<open>\<^verbatim>\<open>JobDriver(runner, miner_client, startup_time_limit)\<close>.\<close>

definition JobDriver :: "runner \<Rightarrow> driver" where
  "JobDriver r = \<lparr>runner = r, specs = None, current_stage = UNKNOWN, trace = []\<rparr>"

subsection \<open>Observations on a trace\<close>

text \<open>The three messages that end a run for the miner.\<close>

definition terminal :: "outbound \<Rightarrow> bool" where
  "terminal m =
     (case m of
        V0JobFinishedRequest _ \<Rightarrow> True
      | JobFailed _ \<Rightarrow> True
      | HordeFailed _ \<Rightarrow> True
      | _ \<Rightarrow> False)"

text \<open>The events whose number and order the properties below are about.\<close>

definition marked :: "event \<Rightarrow> bool" where
  "marked ev = (case ev of Send m \<Rightarrow> terminal m | Runner Clean \<Rightarrow> True | _ \<Rightarrow> False)"

text \<open>An action preserves \<open>P\<close> when it adds no event that satisfies \<open>P\<close>.\<close>

definition preserves :: "(event \<Rightarrow> bool) \<Rightarrow> 'a action \<Rightarrow> bool" where
  "preserves P m = (\<forall>s. filter P (trace (snd (m s))) = filter P (trace s))"

text \<open>
  An action is finishing when it adds no marked event if it raises, and when it returns
  adds exactly one, the finished request, as its last event.
\<close>

definition finishing :: "unit action \<Rightarrow> bool" where
  "finishing m =
     (\<forall>s. case m s of
        (Inl e, s') \<Rightarrow> filter marked (trace s') = filter marked (trace s)
      | (Inr x, s') \<Rightarrow>
          trace s' \<noteq> [] \<and> (\<exists>jr. last (trace s') = Send (V0JobFinishedRequest jr)) \<and>
          filter marked (butlast (trace s')) = filter marked (trace s))"

text \<open>The messages handed to the miner client, in order.\<close>

definition outbound_of :: "event list \<Rightarrow> outbound list" where
  "outbound_of tr = concat (map (\<lambda>ev. case ev of Send m \<Rightarrow> [m] | _ \<Rightarrow> []) tr)"

definition terminal_messages :: "event list \<Rightarrow> outbound list" where
  "terminal_messages tr = filter terminal (outbound_of tr)"

text \<open>The requests that the two \<^verbatim>\<open>except\<close> clauses build in the state \<open>s\<close>.\<close>

definition job_failed_request :: "env \<Rightarrow> job_error \<Rightarrow> driver \<Rightarrow> V0JobFailedRequest" where
  "job_failed_request env e s =
     \<lparr>jf_job_uuid = job_uuid env,
      jf_stage = current_stage s,
      jf_reason = je_reason e,
      jf_message = je_message e,
      docker_process_exit_status = map_option return_code (execution_result (runner s)),
      docker_process_stdout = map_option stdout (execution_result (runner s)),
      docker_process_stderr = map_option stderr (execution_result (runner s)),
      jf_context = je_context e\<rparr>"

definition horde_failed_request :: "env \<Rightarrow> exn \<Rightarrow> driver \<Rightarrow> V0HordeFailedRequest" where
  "horde_failed_request env ex s =
     (let e = add_context env (wrap_unhandled env ex) [(''stage'', CStage (current_stage s))]
      in \<lparr>hf_job_uuid = job_uuid env,
          reported_by = EXECUTOR,
          hf_reason = he_reason e,
          hf_message = he_message e,
          hf_context = he_context e\<rparr>)"

text \<open>The message a run started in \<open>s\<close> reports: it depends on how \<^verbatim>\<open>_execute\<close> ends.\<close>

definition reported :: "env \<Rightarrow> driver \<Rightarrow> outbound" where
  "reported env s =
     (case execute_stages env s of
        (Inr _, s1) \<Rightarrow> last (outbound_of (trace s1))
      | (Inl (JobError e), s1) \<Rightarrow> JobFailed (job_failed_request env e s1)
      | (Inl ex, s1) \<Rightarrow> HordeFailed (horde_failed_request env ex s1))"

text \<open>The calls of the deadline timer, and those together with the entries into stages.\<close>

definition timer :: "event \<Rightarrow> bool" where
  "timer ev = (case ev of SetTimeout _ \<Rightarrow> True | ExtendTimeout _ \<Rightarrow> True | _ \<Rightarrow> False)"

definition scheduled :: "event \<Rightarrow> bool" where
  "scheduled ev = (case ev of EnterStage _ \<Rightarrow> True | _ \<Rightarrow> timer ev)"

text \<open>The calls of \<^verbatim>\<open>runner.generate_streaming_certificate\<close>.\<close>

definition certificate_call :: "event \<Rightarrow> bool" where
  "certificate_call ev =
     (case ev of Runner (GenerateStreamingCertificate _ _) \<Rightarrow> True | _ \<Rightarrow> False)"

text \<open>An action keeps the stage when it leaves \<^verbatim>\<open>current_stage\<close> as it was.\<close>

definition keeps_stage :: "'a action \<Rightarrow> bool" where
  "keeps_stage m = (\<forall>s. current_stage (snd (m s)) = current_stage s)"

subsection \<open>Example environments\<close>

text \<open>
  A run in which every collaborator succeeds, and the variations of it at which the
  properties below are instantiated.
\<close>

definition example_runner :: runner where
  "example_runner =
     \<lparr>is_streaming_job = False, executor_certificate = None, execution_result = None\<rparr>"

definition example_result :: "int \<Rightarrow> bool \<Rightarrow> ExecutionResult" where
  "example_result code expired =
     \<lparr>return_code = code, stdout = ''out'', stderr = ''err'', timed_out = expired\<rparr>"

definition example_request :: V0InitialJobRequest where
  "example_request =
     \<lparr>docker_image = ''image'', timeout_seconds = Some 10, executor_timing = None,
      streaming_details = None\<rparr>"

definition example_env :: env where
  "example_env =
     \<lparr>DEBUG_NO_GPU_MODE = False,
      startup_time_limit = 5,
      job_uuid = ''job'',
      get_machine_specs = Inr (MachineSpecs ''gpu''),
      cve_2022_0492_container =
        Inr (0, PyStr ''Contained: cannot escape via CVE-2022-0492'', PyStr []),
      nvidia_toolkit_container =
        Inr (0, PyStr ''NVIDIA Container Runtime Hook version 1.17.4'', PyStr []),
      initial_msg = Inr example_request,
      full_payload = Inr (V0JobRequest ''payload''),
      prepare_initial = (\<lambda>request r. (Inr (), r)),
      generate_streaming_certificate =
        (\<lambda>ip key r. (Inr (), r\<lparr>executor_certificate := Some ''certificate''\<rparr>)),
      prepare_full = (\<lambda>request r. (Inr (), r)),
      download_volume = (\<lambda>r. (Inr (), r)),
      start_job_enter = (\<lambda>r. (Inr (), r)),
      start_job_exit =
        (\<lambda>raised r. (Inr False, r\<lparr>execution_result := Some (example_result 0 False)\<rparr>)),
      upload_results = (\<lambda>r. (Inr \<lparr>jr_payload = ''out'', jr_specs = None\<rparr>, r)),
      clean = (\<lambda>r. (Inr (), r)),
      download_expired = False,
      execution_expired = False,
      upload_expired = False,
      wrap_unhandled =
        (\<lambda>ex. case ex of
           HordeError e \<Rightarrow> e
         | _ \<Rightarrow> \<lparr>he_message = ''unhandled'', he_reason = GENERIC_ERROR, he_context = None\<rparr>),
      add_context =
        (\<lambda>e ctx. e\<lparr>he_context := Some (case he_context e of None \<Rightarrow> ctx | Some old \<Rightarrow> old @ ctx)\<rparr>)\<rparr>"

definition nonzero_exit_env :: env where
  "nonzero_exit_env =
     example_env\<lparr>start_job_exit :=
       (\<lambda>raised r. (Inr False, r\<lparr>execution_result := Some (example_result 1 False)\<rparr>))\<rparr>"

definition closed_connection_env :: env where
  "closed_connection_env = example_env\<lparr>initial_msg := Inl (OtherException ''connection closed'')\<rparr>"

definition example_timing :: TimingDetails where
  "example_timing =
     \<lparr>allowed_leeway = 1, download_time_limit = 2, execution_time_limit = 3,
      streaming_start_time_limit = 4, upload_time_limit = 6\<rparr>"

definition streaming_request :: V0InitialJobRequest where
  "streaming_request =
     \<lparr>docker_image = ''image'', timeout_seconds = Some 10, executor_timing = Some example_timing,
      streaming_details = Some \<lparr>executor_ip = Some ''127.0.0.1'', public_key = Some ''key''\<rparr>\<rparr>"

definition streaming_env :: env where
  "streaming_env =
     example_env\<lparr>initial_msg := Inr streaming_request,
                 prepare_initial := (\<lambda>request r. (Inr (), r\<lparr>is_streaming_job := True\<rparr>))\<rparr>"


definition keyless_request :: V0InitialJobRequest where
  "keyless_request =
     \<lparr>docker_image = ''image'', timeout_seconds = Some 10, executor_timing = None,
      streaming_details = Some \<lparr>executor_ip = Some ''127.0.0.1'', public_key = None\<rparr>\<rparr>"

definition keyless_env :: env where
  "keyless_env = example_env\<lparr>initial_msg := Inr keyless_request\<rparr>"

definition too_big_volume_env :: env where
  "too_big_volume_env =
     example_env\<lparr>download_volume :=
       (\<lambda>r. (Inl (JobError \<lparr>je_message = ''Input volume too large'',
                              je_reason = DOWNLOAD_FAILED, je_context = None\<rparr>), r))\<rparr>"


section \<open>Properties\<close>

subsection \<open>What an action adds to the trace\<close>

named_theorems preserves_intros

lemma preserves_returns [preserves_intros]: "preserves P (returns x)"
  by (simp add: preserves_def returns_def)

lemma preserves_raise [preserves_intros]: "preserves P (raise e)"
  by (simp add: preserves_def raise_def)

lemma preserves_await [preserves_intros]: "preserves P (await r)"
  by (simp add: preserves_def await_def)

lemma preserves_gets [preserves_intros]: "preserves P (gets f)"
  by (simp add: preserves_def gets_def)

lemma preserves_set_specs [preserves_intros]: "preserves P (set_specs sp)"
  by (simp add: preserves_def set_specs_def)

lemma preserves_emit: "\<not> P ev \<Longrightarrow> preserves P (emit ev)"
  by (simp add: preserves_def emit_def)

lemma preserves_enter_stage: "\<not> P (EnterStage st) \<Longrightarrow> preserves P (enter_stage st)"
  by (simp add: preserves_def enter_stage_def)

lemma preserves_call_runner: "\<not> P (Runner c) \<Longrightarrow> preserves P (call_runner c f)"
  by (simp add: preserves_def call_runner_def split: prod.splits)

lemma preserves_bind [preserves_intros]:
  assumes "preserves P m" and "\<And>x. preserves P (f x)"
  shows "preserves P (bind_io m f)"
proof -
  have "filter P (trace (snd (bind_io m f s))) = filter P (trace s)" for s
  proof (cases "m s")
    case (Pair r s')
    have m: "filter P (trace s') = filter P (trace s)"
      using assms(1) Pair by (auto simp: preserves_def dest: spec [of _ s])
    show ?thesis
    proof (cases r)
      case (Inl e)
      with Pair m show ?thesis by (simp add: bind_io_def)
    next
      case (Inr x)
      have "filter P (trace (snd (f x s'))) = filter P (trace s')"
        using assms(2) [of x] by (simp add: preserves_def)
      with Pair Inr m show ?thesis by (simp add: bind_io_def)
    qed
  qed
  then show ?thesis by (simp add: preserves_def)
qed

lemma preserves_then [preserves_intros]:
  "preserves P m \<Longrightarrow> preserves P n \<Longrightarrow> preserves P (then_io m n)"
  by (simp add: then_io_def preserves_bind)

lemma preserves_try_except [preserves_intros]:
  assumes "preserves P m" and "\<And>e. preserves P (h e)"
  shows "preserves P (try_except m h)"
proof -
  have "filter P (trace (snd (try_except m h s))) = filter P (trace s)" for s
  proof (cases "m s")
    case (Pair r s')
    have m: "filter P (trace s') = filter P (trace s)"
      using assms(1) Pair by (auto simp: preserves_def dest: spec [of _ s])
    show ?thesis
    proof (cases r)
      case (Inr x)
      with Pair m show ?thesis by (simp add: try_except_def)
    next
      case (Inl e)
      have "filter P (trace (snd (h e s'))) = filter P (trace s')"
        using assms(2) [of e] by (simp add: preserves_def)
      with Pair Inl m show ?thesis by (simp add: try_except_def)
    qed
  qed
  then show ?thesis by (simp add: preserves_def)
qed

lemma preserves_except_TimeoutError [preserves_intros]:
  "preserves P m \<Longrightarrow> preserves P (except_TimeoutError m e')"
  unfolding except_TimeoutError_def
  by (rule preserves_try_except) (auto simp: preserves_raise split: exn.splits)

lemma preserves_wait_for [preserves_intros]:
  "preserves P m \<Longrightarrow> preserves P (wait_for expired m)"
  by (simp add: wait_for_def preserves_raise)

lemma preserves_if [preserves_intros]:
  "preserves P m \<Longrightarrow> preserves P n \<Longrightarrow> preserves P (if b then m else n)"
  by simp

lemma preserves_case_option [preserves_intros]:
  "preserves P m \<Longrightarrow> (\<And>x. preserves P (f x)) \<Longrightarrow>
   preserves P (case opt of None \<Rightarrow> m | Some x \<Rightarrow> f x)"
  by (cases opt) simp_all

lemma preserves_with_start_job [preserves_intros]:
  assumes "\<not> P (Runner StartJobEnter)" and "\<not> P (Runner StartJobExit)" and "preserves P body"
  shows "preserves P (with_start_job env body)"
proof -
  have body: "filter P (trace (snd (body s))) = filter P (trace s)" for s
    using assms(3) by (simp add: preserves_def)
  have "filter P (trace (snd (with_start_job env body s))) = filter P (trace s)" for s
    using assms(1,2)
    apply (simp add: with_start_job_def call_runner_def split: prod.splits sum.splits)
    apply (auto dest: arg_cong [where f = "\<lambda>p. filter P (trace (snd p))"] simp: body)
    done
  then show ?thesis by (simp add: preserves_def)
qed

lemma marked_simps [simp]:
  "\<not> marked (SetTimeout x)" "\<not> marked (ExtendTimeout x)" "\<not> marked (EnterStage st)"
  "\<not> marked (LogError e)" "\<not> marked (CaptureException e)" "\<not> marked (LogCleanupFailed e)"
  "marked (Runner c) = (c = Clean)" "marked (Send m) = terminal m"
  by (simp_all add: marked_def split: runner_call.splits)

lemma terminal_simps [simp]:
  "\<not> terminal V0ExecutorReadyRequest" "\<not> terminal (V0StreamingJobReadyRequest c)"
  "\<not> terminal V0VolumesReadyRequest" "\<not> terminal V0ExecutionDoneRequest"
  "terminal (V0JobFinishedRequest r)" "terminal (JobFailed f)" "terminal (HordeFailed h)"
  by (simp_all add: terminal_def)

lemma startup_stage_marked: "preserves marked (startup_stage env)"
  unfolding startup_stage_def run_security_checks_or_fail_def send_def
  by (intro preserves_intros preserves_emit preserves_enter_stage preserves_call_runner) simp_all

lemma download_stage_marked: "preserves marked (download_stage env)"
  unfolding download_stage_def send_def
  by (intro preserves_intros preserves_emit preserves_enter_stage preserves_call_runner) simp_all

lemma fail_if_execution_unsuccessful_marked: "preserves P fail_if_execution_unsuccessful"
  by (simp add: preserves_def fail_if_execution_unsuccessful_def raise_def returns_def
      split: option.splits)

lemma execution_stage_marked: "preserves marked (execution_stage env)"
  unfolding execution_stage_def send_def
  by (intro preserves_intros preserves_emit preserves_enter_stage preserves_call_runner
      fail_if_execution_unsuccessful_marked) simp_all


lemma fail_if_execution_unsuccessful_state:
  "snd (fail_if_execution_unsuccessful s) = s"
  by (simp add: fail_if_execution_unsuccessful_def raise_def returns_def split: option.splits)

lemma finishing_bind:
  assumes "preserves marked m" and "\<And>x. finishing (f x)"
  shows "finishing (bind_io m f)"
  unfolding finishing_def
proof
  fix s
  obtain r s1 where ms: "m s = (r, s1)" by (cases "m s")
  have m: "filter marked (trace s1) = filter marked (trace s)"
    using assms(1) ms by (auto simp: preserves_def dest: spec [of _ s])
  show "case bind_io m f s of
          (Inl e, s') \<Rightarrow> filter marked (trace s') = filter marked (trace s)
        | (Inr x, s') \<Rightarrow>
            trace s' \<noteq> [] \<and> (\<exists>jr. last (trace s') = Send (V0JobFinishedRequest jr)) \<and>
            filter marked (butlast (trace s')) = filter marked (trace s)"
  proof (cases r)
    case (Inl e)
    with ms m show ?thesis by (simp add: bind_io_def)
  next
    case (Inr x)
    then have eq: "bind_io m f s = f x s1" using ms by (simp add: bind_io_def)
    from assms(2) [of x] have
      "case f x s1 of
          (Inl e, s') \<Rightarrow> filter marked (trace s') = filter marked (trace s1)
        | (Inr x, s') \<Rightarrow>
            trace s' \<noteq> [] \<and> (\<exists>jr. last (trace s') = Send (V0JobFinishedRequest jr)) \<and>
            filter marked (butlast (trace s')) = filter marked (trace s1)"
      by (simp add: finishing_def)
    with m eq show ?thesis by (auto split: prod.splits sum.splits)
  qed
qed

lemma finishing_then:
  "preserves marked m \<Longrightarrow> finishing n \<Longrightarrow> finishing (then_io m n)"
  by (simp add: then_io_def finishing_bind)

lemma finishing_send_result:
  "finishing (bind_io (gets specs) (\<lambda>sp. send (V0JobFinishedRequest (job_result\<lparr>jr_specs := sp\<rparr>))))"
  by (simp add: finishing_def bind_io_def gets_def send_def emit_def)

lemma upload_stage_finishing: "finishing (upload_stage env)"
  unfolding upload_stage_def
  by (intro finishing_then finishing_bind finishing_send_result
      preserves_enter_stage preserves_call_runner) simp_all

lemma finishing_except_TimeoutError:
  assumes "finishing m"
  shows "finishing (except_TimeoutError m e')"
  unfolding finishing_def
proof
  fix s
  obtain r s1 where ms: "m s = (r, s1)" by (cases "m s")
  have "case m s of
          (Inl e, s') \<Rightarrow> filter marked (trace s') = filter marked (trace s)
        | (Inr x, s') \<Rightarrow>
            trace s' \<noteq> [] \<and> (\<exists>jr. last (trace s') = Send (V0JobFinishedRequest jr)) \<and>
            filter marked (butlast (trace s')) = filter marked (trace s)"
    using assms by (simp add: finishing_def)
  with ms show "case except_TimeoutError m e' s of
          (Inl e, s') \<Rightarrow> filter marked (trace s') = filter marked (trace s)
        | (Inr x, s') \<Rightarrow>
            trace s' \<noteq> [] \<and> (\<exists>jr. last (trace s') = Send (V0JobFinishedRequest jr)) \<and>
            filter marked (butlast (trace s')) = filter marked (trace s)"
    by (cases r) (simp_all add: except_TimeoutError_def try_except_def raise_def split: exn.splits)
qed

lemma finishing_wait_for: "finishing m \<Longrightarrow> finishing (wait_for expired m)"
  by (simp add: wait_for_def) (simp add: finishing_def raise_def)

lemma execute_upload_finishing: "finishing (execute_upload env td)"
  unfolding execute_upload_def extend_deadline_def
  by (intro finishing_then finishing_except_TimeoutError finishing_wait_for
      upload_stage_finishing preserves_intros preserves_emit) simp_all

lemma execute_startup_marked: "preserves marked (execute_startup env)"
  unfolding execute_startup_def set_deadline_def
  by (intro preserves_intros preserves_emit startup_stage_marked) simp_all

lemma execute_timing_marked: "preserves marked (execute_timing req)"
  unfolding execute_timing_def set_deadline_def
  by (intro preserves_intros preserves_emit) simp_all

lemma execute_download_marked: "preserves marked (execute_download env td)"
  unfolding execute_download_def extend_deadline_def
  by (intro preserves_intros preserves_emit download_stage_marked) simp_all

lemma execute_execution_marked: "preserves marked (execute_execution env td)"
  unfolding execute_execution_def extend_deadline_def
  by (intro preserves_intros preserves_emit execution_stage_marked) simp_all

lemma execute_stages_finishing: "finishing (execute_stages env)"
  unfolding execute_stages_def
  by (intro finishing_bind finishing_then execute_upload_finishing execute_startup_marked
      execute_timing_marked execute_download_marked execute_execution_marked)


lemma outbound_of_simps [simp]:
  "outbound_of [] = []"
  "outbound_of (tr @ tr') = outbound_of tr @ outbound_of tr'"
  "outbound_of (Send m # tr) = m # outbound_of tr"
  "outbound_of (SetTimeout x # tr) = outbound_of tr"
  "outbound_of (ExtendTimeout x # tr) = outbound_of tr"
  "outbound_of (EnterStage st # tr) = outbound_of tr"
  "outbound_of (Runner c # tr) = outbound_of tr"
  "outbound_of (LogError e # tr) = outbound_of tr"
  "outbound_of (CaptureException e # tr) = outbound_of tr"
  "outbound_of (LogCleanupFailed e # tr) = outbound_of tr"
  by (simp_all add: outbound_of_def)

lemma terminal_messages_marked:
  "terminal_messages tr = outbound_of (filter marked tr)"
proof (induction tr)
  case Nil
  show ?case by (simp add: terminal_messages_def)
next
  case (Cons ev tr)
  then show ?case
    by (cases ev) (simp_all add: terminal_messages_def)
qed

lemma clean_calls_marked:
  "filter (\<lambda>ev. ev = Runner Clean) tr = filter (\<lambda>ev. ev = Runner Clean) (filter marked tr)"
  by (induction tr) auto

lemma execute_except_JobError:
  "execute_except env (JobError e) s =
     (Inr (), s\<lparr>trace := trace s @ [LogError (JobError e), Send (JobFailed (job_failed_request env e s))]\<rparr>)"
  by (simp add: execute_except_def then_io_def bind_io_def emit_def send_job_failed_def send_def
      job_failed_request_def)

lemma execute_except_other:
  assumes "\<And>e. ex \<noteq> JobError e"
  shows "execute_except env ex s =
     (Inr (), s\<lparr>trace := trace s @
        [CaptureException ex,
         LogError (HordeError (add_context env (wrap_unhandled env ex)
                                 [(''stage'', CStage (current_stage s))])),
         Send (HordeFailed (horde_failed_request env ex s))]\<rparr>)"
proof (cases ex)
  case (JobError e)
  with assms show ?thesis by blast
qed (simp_all add: execute_except_def then_io_def bind_io_def emit_def send_horde_failed_def
        send_def gets_def horde_failed_request_def Let_def)

lemma execute_finally_eq:
  "execute_finally env s =
     (Inr (), s\<lparr>runner := snd (clean env (runner s)),
               trace := trace s @ Runner Clean #
                 (case fst (clean env (runner s)) of
                    Inl e \<Rightarrow> [LogCleanupFailed e]
                  | Inr _ \<Rightarrow> [])\<rparr>)"
  by (cases "clean env (runner s)")
     (auto simp: execute_finally_def try_except_def call_runner_def emit_def split: sum.splits)

lemma execute_try:
  "\<exists>pre. try_except (execute_stages env) (execute_except env) s =
           (Inr (), (snd (try_except (execute_stages env) (execute_except env) s)))
      \<and> trace (snd (try_except (execute_stages env) (execute_except env) s))
          = pre @ [Send (reported env s)]
      \<and> filter marked pre = filter marked (trace s)
      \<and> terminal (reported env s)"
proof -
  obtain r s1 where st: "execute_stages env s = (r, s1)" by (cases "execute_stages env s")
  have fin: "case r of
        Inl e \<Rightarrow> filter marked (trace s1) = filter marked (trace s)
      | Inr x \<Rightarrow>
          trace s1 \<noteq> [] \<and> (\<exists>jr. last (trace s1) = Send (V0JobFinishedRequest jr)) \<and>
          filter marked (butlast (trace s1)) = filter marked (trace s)"
    using execute_stages_finishing [of env] st
    by (auto simp: finishing_def dest!: spec [of _ s])
  show ?thesis
  proof (cases r)
    case (Inr x)
    with fin obtain jr where jr: "trace s1 \<noteq> []" "last (trace s1) = Send (V0JobFinishedRequest jr)"
      "filter marked (butlast (trace s1)) = filter marked (trace s)" by auto
    then have tr: "trace s1 = butlast (trace s1) @ [Send (V0JobFinishedRequest jr)]"
      by (metis append_butlast_last_id)
    have "outbound_of (trace s1) = outbound_of (butlast (trace s1)) @ [V0JobFinishedRequest jr]"
      by (subst tr) simp
    then have rep: "reported env s = V0JobFinishedRequest jr"
      using st Inr by (simp add: reported_def)
    show ?thesis
      apply (rule exI [of _ "butlast (trace s1)"])
      using st Inr jr(3) tr rep by (simp add: try_except_def)
  next
    case (Inl ex)
    show ?thesis
    proof (cases "\<exists>e. ex = JobError e")
      case True
      then obtain e where e: "ex = JobError e" by blast
      show ?thesis
        apply (rule exI [of _ "trace s1 @ [LogError (JobError e)]"])
        using st Inl e fin by (simp add: try_except_def execute_except_JobError reported_def)
    next
      case False
      then have ne: "\<And>e. ex \<noteq> JobError e" by blast
      have rep: "reported env s = HordeFailed (horde_failed_request env ex s1)"
      proof (cases ex)
        case (JobError e)
        with ne show ?thesis by blast
      qed (simp_all add: st Inl reported_def)
      show ?thesis
        apply (rule exI [of _ "trace s1 @ [CaptureException ex,
           LogError (HordeError (add_context env (wrap_unhandled env ex)
                                 [(''stage'', CStage (current_stage s1))]))]"])
        using st Inl fin rep by (simp add: try_except_def execute_except_other [OF ne])
    qed
  qed
qed

lemma execute_eq:
  "execute env s =
     (let s2 = snd (try_except (execute_stages env) (execute_except env) s)
      in (Inr (), s2\<lparr>runner := snd (clean env (runner s2)),
               trace := trace s2 @ Runner Clean #
                 (case fst (clean env (runner s2)) of
                    Inl e \<Rightarrow> [LogCleanupFailed e]
                  | Inr _ \<Rightarrow> [])\<rparr>))"
proof -
  obtain s2 where "try_except (execute_stages env) (execute_except env) s = (Inr (), s2)"
    using execute_try [of env s] by metis
  then show ?thesis
    by (simp add: execute_def try_finally_def execute_finally_eq Let_def)
qed


lemma reported_finished:
  assumes "execute_stages env s = (Inr x, s1)"
  shows "\<exists>jr. reported env s = V0JobFinishedRequest jr"
proof -
  have "trace s1 \<noteq> [] \<and> (\<exists>jr. last (trace s1) = Send (V0JobFinishedRequest jr))"
    using execute_stages_finishing [of env] assms
    by (auto simp: finishing_def dest!: spec [of _ s])
  then obtain jr where "trace s1 = butlast (trace s1) @ [Send (V0JobFinishedRequest jr)]"
    by (metis append_butlast_last_id)
  then have "outbound_of (trace s1) = outbound_of (butlast (trace s1)) @ [V0JobFinishedRequest jr]"
    by (metis outbound_of_simps(1,2,3))
  then show ?thesis using assms by (simp add: reported_def)
qed

lemma reported_kind:
  "case fst (execute_stages env s) of
     Inr _ \<Rightarrow> \<exists>jr. reported env s = V0JobFinishedRequest jr
   | Inl (JobError e) \<Rightarrow> reported env s = JobFailed (job_failed_request env e (snd (execute_stages env s)))
   | Inl ex \<Rightarrow> reported env s = HordeFailed (horde_failed_request env ex (snd (execute_stages env s)))"
proof (cases "execute_stages env s")
  case (Pair r s1)
  show ?thesis
  proof (cases r)
    case (Inr x)
    with Pair reported_finished [of env s x s1] show ?thesis by simp
  next
    case (Inl ex)
    with Pair show ?thesis by (cases ex) (simp_all add: reported_def)
  qed
qed

lemma execute_trace:
  "\<exists>pre post. trace (snd (execute env s)) = pre @ Send (reported env s) # Runner Clean # post
      \<and> filter marked pre = filter marked (trace s)
      \<and> (post = [] \<or> (\<exists>e. post = [LogCleanupFailed e]))
      \<and> pre @ [Send (reported env s)] = trace (snd (try_except (execute_stages env) (execute_except env) s))"
proof -
  obtain pre where pre:
    "trace (snd (try_except (execute_stages env) (execute_except env) s)) = pre @ [Send (reported env s)]"
    "filter marked pre = filter marked (trace s)"
    using execute_try [of env s] by blast
  show ?thesis
    apply (rule exI [of _ pre])
    using pre by (simp add: execute_eq Let_def split: sum.splits)
qed

lemma terminal_reported: "terminal (reported env s)"
  using execute_try [of env s] by blast

lemma execute_returns: "fst (execute env s) = Inr ()"
  by (simp add: execute_eq Let_def)

subsection \<open>The terminal message\<close>

text \<open>
  Claim C1. Every run of \<^verbatim>\<open>execute\<close> hands the miner client exactly one of the three
  terminal messages, and it is the last message of the run: the finished request when
  \<^verbatim>\<open>_execute\<close> returns, the job-failed request when it raises a \<^verbatim>\<open>JobError\<close>, the
  horde-failed request when it raises anything else.
\<close>

theorem execute_one_terminal_message:
  "\<exists>m. terminal_messages (trace (snd (execute env (JobDriver r)))) = [m]
      \<and> last (outbound_of (trace (snd (execute env (JobDriver r))))) = m
      \<and> (case fst (execute_stages env (JobDriver r)) of
           Inr _ \<Rightarrow> \<exists>result. m = V0JobFinishedRequest result
         | Inl (JobError e) \<Rightarrow> \<exists>request. m = JobFailed request
         | Inl _ \<Rightarrow> \<exists>request. m = HordeFailed request)"
proof -
  let ?s = "JobDriver r"
  obtain pre post where tr:
    "trace (snd (execute env ?s)) = pre @ Send (reported env ?s) # Runner Clean # post"
    "filter marked pre = filter marked (trace ?s)"
    "post = [] \<or> (\<exists>e. post = [LogCleanupFailed e])"
    using execute_trace [of env ?s] by blast
  have m: "filter marked pre = []" using tr(2) by (simp add: JobDriver_def)
  have post: "filter marked post = []" "outbound_of post = []" using tr(3) by auto
  have one: "terminal_messages (trace (snd (execute env ?s))) = [reported env ?s]"
    by (simp add: terminal_messages_marked tr(1) m post terminal_reported)
  have lst: "last (outbound_of (trace (snd (execute env ?s)))) = reported env ?s"
    by (simp add: tr(1) post)
  have kind: "case fst (execute_stages env ?s) of
           Inr _ \<Rightarrow> \<exists>result. reported env ?s = V0JobFinishedRequest result
         | Inl (JobError e) \<Rightarrow> \<exists>request. reported env ?s = JobFailed request
         | Inl _ \<Rightarrow> \<exists>request. reported env ?s = HordeFailed request"
    using reported_kind [of env ?s] by (auto split: sum.splits exn.splits)
  from one lst kind show ?thesis by blast
qed

lemma clean_irrelevant_calls:
  "with_start_job (env\<lparr>clean := c\<rparr>) = with_start_job env"
  "send_job_failed (env\<lparr>clean := c\<rparr>) = send_job_failed env"
  "send_horde_failed (env\<lparr>clean := c\<rparr>) = send_horde_failed env"
  "run_security_checks_or_fail (env\<lparr>clean := c\<rparr>) = run_security_checks_or_fail env"
  by (intro ext, simp add: with_start_job_def send_job_failed_def send_horde_failed_def
        run_security_checks_or_fail_def split: prod.splits sum.splits)+

lemma clean_irrelevant_stage:
  "startup_stage (env\<lparr>clean := c\<rparr>) = startup_stage env"
  "download_stage (env\<lparr>clean := c\<rparr>) = download_stage env"
  "execution_stage (env\<lparr>clean := c\<rparr>) = execution_stage env"
  "upload_stage (env\<lparr>clean := c\<rparr>) = upload_stage env"
  by (simp_all add: startup_stage_def download_stage_def execution_stage_def upload_stage_def
      clean_irrelevant_calls cong: option.case_cong)

lemma clean_irrelevant:
  "execute_stages (env\<lparr>clean := c\<rparr>) = execute_stages env"
  "execute_except (env\<lparr>clean := c\<rparr>) = execute_except env"
  by (simp_all add: fun_eq_iff execute_stages_def execute_startup_def execute_download_def
      execute_execution_def execute_upload_def clean_irrelevant_stage clean_irrelevant_calls
      execute_except_def cong: exn.case_cong)

lemma reported_clean: "reported (env\<lparr>clean := c\<rparr>) s = reported env s"
  by (simp add: reported_def clean_irrelevant job_failed_request_def horde_failed_request_def
      cong: exn.case_cong sum.case_cong prod.case_cong)

subsection \<open>Cleanup\<close>

text \<open>
  Claim C2. Every run of \<^verbatim>\<open>execute\<close> calls \<^verbatim>\<open>runner.clean()\<close> exactly once, whether
  \<^verbatim>\<open>_execute\<close> returned or raised. \<^verbatim>\<open>execute\<close> itself returns: an exception of
  \<^verbatim>\<open>clean\<close> is logged, as the last event of the run, and goes no further; and the
  terminal message of the run is the same whatever \<^verbatim>\<open>clean\<close> does.
\<close>

theorem execute_cleans_exactly_once:
  "length (filter (\<lambda>ev. ev = Runner Clean) (trace (snd (execute env (JobDriver r))))) = 1
   \<and> fst (execute env (JobDriver r)) = Inr ()
   \<and> (let s2 = snd (try_except (execute_stages env) (execute_except env) (JobDriver r))
      in trace (snd (execute env (JobDriver r))) =
           trace s2 @ Runner Clean #
             (case fst (clean env (runner s2)) of
                Inl e \<Rightarrow> [LogCleanupFailed e]
              | Inr _ \<Rightarrow> []))
   \<and> terminal_messages (trace (snd (execute (env\<lparr>clean := c\<rparr>) (JobDriver r))))
       = terminal_messages (trace (snd (execute env (JobDriver r))))"
proof -
  let ?s = "JobDriver r"
  have once: "length (filter (\<lambda>ev. ev = Runner Clean) (trace (snd (execute env' ?s)))) = 1
      \<and> terminal_messages (trace (snd (execute env' ?s))) = [reported env' ?s]" for env'
  proof -
    obtain pre post where tr:
      "trace (snd (execute env' ?s)) = pre @ Send (reported env' ?s) # Runner Clean # post"
      "filter marked pre = filter marked (trace ?s)"
      "post = [] \<or> (\<exists>e. post = [LogCleanupFailed e])"
      using execute_trace [of env' ?s] by blast
    have m: "filter marked pre = []" using tr(2) by (simp add: JobDriver_def)
    have post: "filter marked post = []" using tr(3) by auto
    have "filter marked (trace (snd (execute env' ?s))) = [Send (reported env' ?s), Runner Clean]"
      by (simp add: tr(1) m post terminal_reported)
    then show ?thesis
      by (simp add: terminal_messages_marked clean_calls_marked [of "trace (snd (execute env' ?s))"])
  qed
  have same: "terminal_messages (trace (snd (execute (env\<lparr>clean := c\<rparr>) ?s)))
       = terminal_messages (trace (snd (execute env ?s)))"
    using once [of env] once [of "env\<lparr>clean := c\<rparr>"] by (simp add: reported_clean)
  show ?thesis
    using once [of env] same by (simp add: execute_returns) (simp add: execute_eq Let_def)
qed

text \<open>
  Claim C10. In every run the terminal message is sent immediately before
  \<^verbatim>\<open>runner.clean()\<close> is called, and \<^verbatim>\<open>clean\<close> was not called earlier. Everything up
  to and including the terminal message is the same whatever \<^verbatim>\<open>clean\<close> does, and
  nothing is sent after it.
\<close>

theorem terminal_message_before_clean:
  "\<exists>pre m. terminal m \<and> Runner Clean \<notin> set pre
     \<and> (\<forall>c. \<exists>post. trace (snd (execute (env\<lparr>clean := c\<rparr>) (JobDriver r)))
                      = pre @ Send m # Runner Clean # post
                  \<and> outbound_of post = [])"
proof -
  let ?s = "JobDriver r"
  obtain pre where pre:
    "trace (snd (try_except (execute_stages env) (execute_except env) ?s)) = pre @ [Send (reported env ?s)]"
    "filter marked pre = filter marked (trace ?s)"
    using execute_try [of env ?s] by blast
  have "filter marked pre = []" using pre(2) by (simp add: JobDriver_def)
  then have "\<not> marked ev" if "ev \<in> set pre" for ev
    using that by (simp add: filter_empty_conv)
  moreover have "marked (Runner Clean)" by simp
  ultimately have noclean: "Runner Clean \<notin> set pre" by blast
  have "\<exists>post. trace (snd (execute (env\<lparr>clean := c\<rparr>) ?s)) = pre @ Send (reported env ?s) # Runner Clean # post
                  \<and> outbound_of post = []" for c
    using pre(1) by (simp add: execute_eq Let_def clean_irrelevant split: sum.splits)
  with noclean terminal_reported [of env ?s] show ?thesis by blast
qed

subsection \<open>Evaluation\<close>

lemmas model_defs =
  execute_def execute_stages_def execute_startup_def execute_timing_def execute_download_def
  execute_execution_def execute_upload_def execute_except_def execute_finally_def
  startup_stage_def download_stage_def execution_stage_def upload_stage_def
  run_security_checks_or_fail_def with_start_job_def fail_if_execution_unsuccessful_def
  send_job_failed_def send_horde_failed_def send_def set_deadline_def extend_deadline_def
  enter_stage_def set_specs_def
  returns_def raise_def bind_io_def then_io_def gets_def emit_def await_def call_runner_def
  try_except_def except_TimeoutError_def try_finally_def wait_for_def
  new_JobError_def new_HordeError_def JobDriver_def

lemmas check_defs =
  run_cve_2022_0492_check_or_fail_def run_nvidia_toolkit_version_check_or_fail_def
  py_decode_def py_contains_def py_splitlines_def py_rpartition_tail_def splitlines_def
  rpartition_tail_def parse_version_def version_ge_def strip_zeros_def is_digit_def
  digit_value_def nat_of_digits_def str_line_boundary_def bytes_line_boundary_def
  NVIDIA_CONTAINER_TOOLKIT_MINIMUM_SAFE_VERSION_def str_int_def

lemmas example_defs = example_env_def example_runner_def example_result_def example_request_def

lemmas trace_defs = outbound_of_def terminal_messages_def terminal_def

text \<open>
  The messages of three runs of the integration tests: the basic job, the streaming job,
  and the volume that is too big.
\<close>

lemma example_run:
  "outbound_of (trace (snd (execute example_env (JobDriver example_runner)))) =
     [V0ExecutorReadyRequest, V0VolumesReadyRequest, V0ExecutionDoneRequest,
      V0JobFinishedRequest \<lparr>jr_payload = ''out'', jr_specs = Some (MachineSpecs ''gpu'')\<rparr>]"
  by (simp add: model_defs check_defs example_defs trace_defs)

lemma streaming_run:
  "outbound_of (trace (snd (execute streaming_env (JobDriver example_runner)))) =
     [V0ExecutorReadyRequest, V0VolumesReadyRequest, V0StreamingJobReadyRequest ''certificate'',
      V0ExecutionDoneRequest,
      V0JobFinishedRequest \<lparr>jr_payload = ''out'', jr_specs = Some (MachineSpecs ''gpu'')\<rparr>]"
  by (simp add: streaming_env_def streaming_request_def example_timing_def model_defs check_defs
      example_defs trace_defs)

lemma too_big_volume_run:
  "outbound_of (trace (snd (execute too_big_volume_env (JobDriver example_runner)))) =
     [V0ExecutorReadyRequest,
      JobFailed
        \<lparr>jf_job_uuid = ''job'',
         jf_stage = VOLUME_DOWNLOAD,
         jf_reason = DOWNLOAD_FAILED,
         jf_message = ''Input volume too large'',
         docker_process_exit_status = None,
         docker_process_stdout = None,
         docker_process_stderr = None,
         jf_context = None\<rparr>]"
  by (simp add: too_big_volume_env_def model_defs check_defs example_defs trace_defs)

subsection \<open>Failure reports\<close>

text \<open>
  Claim C3. When \<^verbatim>\<open>_execute\<close> raises a \<^verbatim>\<open>JobError\<close>, the one terminal message of
  the run is the job-failed request with the stage current at the raise, the error's
  reason, message and context, and the return code and output streams of the runner's
  execution result, each of them \<^verbatim>\<open>None\<close> when there is no result. When it raises
  anything else, the exception is wrapped, \<^verbatim>\<open>{"stage": current_stage}\<close> is added to
  the wrapped error's context, and the terminal message is the horde-failed request
  with that error's reason, message and context, reported by the executor.
\<close>

theorem execute_failure_report:
  assumes "execute_stages env (JobDriver r) = (Inl ex, s1)"
  shows "terminal_messages (trace (snd (execute env (JobDriver r)))) =
     [case ex of
        JobError e \<Rightarrow>
          JobFailed
            \<lparr>jf_job_uuid = job_uuid env,
             jf_stage = current_stage s1,
             jf_reason = je_reason e,
             jf_message = je_message e,
             docker_process_exit_status =
               (case execution_result (runner s1) of
                  None \<Rightarrow> None | Some result \<Rightarrow> Some (return_code result)),
             docker_process_stdout =
               (case execution_result (runner s1) of
                  None \<Rightarrow> None | Some result \<Rightarrow> Some (stdout result)),
             docker_process_stderr =
               (case execution_result (runner s1) of
                  None \<Rightarrow> None | Some result \<Rightarrow> Some (stderr result)),
             jf_context = je_context e\<rparr>
      | _ \<Rightarrow>
          (let e = add_context env (wrap_unhandled env ex)
                     [(''stage'', CStage (current_stage s1))]
           in HordeFailed
                \<lparr>hf_job_uuid = job_uuid env,
                 reported_by = EXECUTOR,
                 hf_reason = he_reason e,
                 hf_message = he_message e,
                 hf_context = he_context e\<rparr>)]"
proof -
  let ?s = "JobDriver r"
  obtain pre post where tr:
    "trace (snd (execute env ?s)) = pre @ Send (reported env ?s) # Runner Clean # post"
    "filter marked pre = filter marked (trace ?s)"
    "post = [] \<or> (\<exists>e. post = [LogCleanupFailed e])"
    using execute_trace [of env ?s] by blast
  have m: "filter marked pre = []" using tr(2) by (simp add: JobDriver_def)
  have post: "filter marked post = []" using tr(3) by auto
  have one: "terminal_messages (trace (snd (execute env ?s))) = [reported env ?s]"
    by (simp add: terminal_messages_marked tr(1) m post terminal_reported)
  have "reported env ?s =
      (case ex of
         JobError e \<Rightarrow> JobFailed (job_failed_request env e s1)
       | _ \<Rightarrow> HordeFailed (horde_failed_request env ex s1))"
    using assms by (cases ex) (simp_all add: reported_def)
  with one show ?thesis
    by (cases ex)
       (simp_all add: job_failed_request_def horde_failed_request_def Let_def map_option_case)
qed

text \<open>
  Two runs: the job's container exits with status 1, and the connection to the miner
  closes before the initial request arrives.
\<close>

theorem execute_failure_report_witness:
  "terminal_messages (trace (snd (execute nonzero_exit_env (JobDriver example_runner)))) =
     [JobFailed
        \<lparr>jf_job_uuid = ''job'',
         jf_stage = EXECUTION,
         jf_reason = NONZERO_RETURN_CODE,
         jf_message = ''Job container exited with non-zero exit code: 1'',
         docker_process_exit_status = Some 1,
         docker_process_stdout = Some ''out'',
         docker_process_stderr = Some ''err'',
         jf_context = None\<rparr>]
   \<and> terminal_messages (trace (snd (execute closed_connection_env (JobDriver example_runner)))) =
     [HordeFailed
        \<lparr>hf_job_uuid = ''job'',
         reported_by = EXECUTOR,
         hf_reason = GENERIC_ERROR,
         hf_message = ''unhandled'',
         hf_context = Some [(''stage'', CStage EXECUTOR_STARTUP)]\<rparr>]"
proof -
  let ?e1 = "new_JobError ''Job container exited with non-zero exit code: 1'' NONZERO_RETURN_CODE"
  let ?s1 = "snd (execute_stages nonzero_exit_env (JobDriver example_runner))"
  let ?s2 = "snd (execute_stages closed_connection_env (JobDriver example_runner))"
  have h1: "execute_stages nonzero_exit_env (JobDriver example_runner) = (Inl ?e1, ?s1)"
    by (simp add: prod_eq_iff nonzero_exit_env_def model_defs check_defs example_defs str_nat.simps)
  have h2: "execute_stages closed_connection_env (JobDriver example_runner) =
      (Inl (OtherException ''connection closed''), ?s2)"
    by (simp add: prod_eq_iff closed_connection_env_def model_defs check_defs example_defs)
  have s1: "current_stage ?s1 = EXECUTION"
    "execution_result (runner ?s1) = Some (example_result 1 False)"
    by (simp_all add: nonzero_exit_env_def model_defs check_defs example_defs str_nat.simps)
  have s2: "current_stage ?s2 = EXECUTOR_STARTUP"
    by (simp add: closed_connection_env_def model_defs check_defs example_defs)
  show ?thesis
    using execute_failure_report [OF h1] execute_failure_report [OF h2]
    by (simp add: s1 s2 new_JobError_def example_result_def)
       (simp add: nonzero_exit_env_def closed_connection_env_def example_env_def)
qed

subsection \<open>The execution result\<close>

text \<open>
  Claim C9. Given an execution result, \<^verbatim>\<open>fail_if_execution_unsuccessful\<close> raises a
  \<^verbatim>\<open>JobError\<close> with reason \<^verbatim>\<open>TIMEOUT\<close> whenever the result timed out, whatever its
  return code; it raises a \<^verbatim>\<open>JobError\<close> with reason \<^verbatim>\<open>NONZERO_RETURN_CODE\<close> exactly
  when the result did not time out and its return code is not 0; it returns exactly
  when the result did not time out and its return code is 0. It raises nothing else
  and leaves the state as it was.
\<close>

theorem fail_if_execution_unsuccessful_classifies:
  assumes "execution_result (runner s) = Some result"
  shows "(timed_out result \<longrightarrow>
            (\<exists>e. fail_if_execution_unsuccessful s = (Inl (JobError e), s) \<and> je_reason e = TIMEOUT))
       \<and> ((\<exists>e. fail_if_execution_unsuccessful s = (Inl (JobError e), s)
                \<and> je_reason e = NONZERO_RETURN_CODE)
            \<longleftrightarrow> \<not> timed_out result \<and> return_code result \<noteq> 0)
       \<and> (fail_if_execution_unsuccessful s = (Inr (), s)
            \<longleftrightarrow> \<not> timed_out result \<and> return_code result = 0)
       \<and> (\<forall>ex. fst (fail_if_execution_unsuccessful s) = Inl ex \<longrightarrow>
             (\<exists>e. ex = JobError e \<and> je_reason e \<in> {TIMEOUT, NONZERO_RETURN_CODE}))
       \<and> snd (fail_if_execution_unsuccessful s) = s"
  using assms
  by (auto simp: fail_if_execution_unsuccessful_def raise_def returns_def new_JobError_def)

text \<open>A result that timed out with return code 137.\<close>

theorem fail_if_execution_unsuccessful_classifies_witness:
  "execution_result (runner (JobDriver (example_runner\<lparr>execution_result := Some (example_result 137 True)\<rparr>)))
     = Some (example_result 137 True)
   \<and> timed_out (example_result 137 True) \<and> return_code (example_result 137 True) \<noteq> 0
   \<and> (\<exists>e. fail_if_execution_unsuccessful
             (JobDriver (example_runner\<lparr>execution_result := Some (example_result 137 True)\<rparr>))
           = (Inl (JobError e),
              JobDriver (example_runner\<lparr>execution_result := Some (example_result 137 True)\<rparr>))
         \<and> je_reason e = TIMEOUT)"
proof -
  have h: "execution_result (runner (JobDriver (example_runner\<lparr>execution_result := Some (example_result 137 True)\<rparr>)))
     = Some (example_result 137 True)"
    by (simp add: JobDriver_def)
  have t: "timed_out (example_result 137 True)" "return_code (example_result 137 True) \<noteq> 0"
    by (simp_all add: example_result_def)
  show ?thesis
    using fail_if_execution_unsuccessful_classifies [OF h] h t by blast
qed

subsection \<open>The security checks\<close>

text \<open>
  Claim C6. The claim is that every outcome of the probe other than exit status 0 with
  the expected text on stdout raises a \<^verbatim>\<open>HordeError\<close> with reason
  \<^verbatim>\<open>SECURITY_CHECK_FAILED\<close>. The check does not do so. If the streams are \<^verbatim>\<open>str\<close>
  values, a probe that exits with status 1 makes the check raise \<^verbatim>\<open>AttributeError\<close>,
  from \<^verbatim>\<open>stdout.decode()\<close>; if they are \<^verbatim>\<open>bytes\<close> values, a probe that exits with
  status 0 and prints the expected text makes it raise \<^verbatim>\<open>TypeError\<close>, from the
  membership test, so that the check can never pass.
\<close>

theorem cve_check_raises_other_than_HordeError:
  "run_cve_2022_0492_check_or_fail (Inr (1, PyStr ''denied'', PyStr [])) =
     Inl (AttributeError ''decode'')
   \<and> run_cve_2022_0492_check_or_fail
       (Inr (0, PyBytes ''Contained: cannot escape via CVE-2022-0492'', PyBytes [])) =
     Inl (TypeError ''a bytes-like object is required'')"
  by (simp add: check_defs)

text \<open>
  Claim C7. The claim is that a toolkit version below the minimum raises a
  \<^verbatim>\<open>HordeError\<close> with reason \<^verbatim>\<open>SECURITY_CHECK_FAILED\<close>. For the version 1.16.2 the
  check raises \<^verbatim>\<open>AttributeError\<close> if the streams are \<^verbatim>\<open>str\<close> values, from
  \<^verbatim>\<open>stdout.decode()\<close>, and \<^verbatim>\<open>TypeError\<close> if they are \<^verbatim>\<open>bytes\<close> values, from
  \<^verbatim>\<open>lines[0].rpartition(" ")\<close>.
\<close>

theorem nvidia_check_raises_other_than_HordeError:
  "run_nvidia_toolkit_version_check_or_fail
     (Inr (0, PyStr ''NVIDIA Container Runtime Hook version 1.16.2'', PyStr [])) =
     Inl (AttributeError ''decode'')
   \<and> run_nvidia_toolkit_version_check_or_fail
       (Inr (0, PyBytes ''NVIDIA Container Runtime Hook version 1.16.2'', PyBytes [])) =
     Inl (TypeError ''a bytes-like object is required'')"
  by (simp add: check_defs)

text \<open>What the first check does on streams of either kind.\<close>

lemma cve_check_on_str:
  "run_cve_2022_0492_check_or_fail (Inr (status, PyStr out, PyStr err)) =
     (if status \<noteq> 0 then Inl (AttributeError ''decode'')
      else if str_in ''Contained: cannot escape via CVE-2022-0492'' out then Inr ()
      else Inl (new_HordeError
                  (''CVE-HordeFailureReason-0492 check failed: '' @ [CHR 0x22]
                     @ ''Contained: cannot escape via CVE-2022-0492'' @ [CHR 0x22]
                     @ '' not in stdout.'')
                  SECURITY_CHECK_FAILED
                  (Some [(''stdout'', CText (PyStr out)), (''stderr'', CText (PyStr err))])))"
  by (simp add: run_cve_2022_0492_check_or_fail_def py_decode_def py_contains_def)

lemma cve_check_on_bytes:
  "run_cve_2022_0492_check_or_fail (Inr (status, PyBytes out, PyBytes err)) =
     (if status \<noteq> 0
      then Inl (new_HordeError ''CVE-2022-0492 check failed'' SECURITY_CHECK_FAILED
                  (Some [(''return_code'', CInt status),
                         (''stdout'', CText (PyStr out)),
                         (''stderr'', CText (PyStr err))]))
      else Inl (TypeError ''a bytes-like object is required''))"
  by (simp add: run_cve_2022_0492_check_or_fail_def py_decode_def py_contains_def)

subsection \<open>The deadline\<close>

lemma timer_simps [simp]:
  "timer (SetTimeout x)" "timer (ExtendTimeout x)" "\<not> timer (EnterStage st)"
  "\<not> timer (Runner c)" "\<not> timer (Send m)" "\<not> timer (LogError e)"
  "\<not> timer (CaptureException e)" "\<not> timer (LogCleanupFailed e)"
  by (simp_all add: timer_def)

lemma scheduled_simps [simp]:
  "scheduled (SetTimeout x)" "scheduled (ExtendTimeout x)" "scheduled (EnterStage st)"
  "\<not> scheduled (Runner c)" "\<not> scheduled (Send m)" "\<not> scheduled (LogError e)"
  "\<not> scheduled (CaptureException e)" "\<not> scheduled (LogCleanupFailed e)"
  by (simp_all add: scheduled_def)

lemma preservesD: "preserves P m \<Longrightarrow> filter P (trace (snd (m s))) = filter P (trace s)"
  by (simp add: preserves_def)

lemma then_enter_stage:
  assumes "preserves P n"
  shows "filter P (trace (snd (then_io (enter_stage st) n s))) =
           filter P (trace s) @ filter P [EnterStage st]"
  using preservesD [OF assms, of "s\<lparr>current_stage := st, trace := trace s @ [EnterStage st]\<rparr>"]
  by (simp add: then_io_def bind_io_def enter_stage_def)

lemma startup_stage_scheduled:
  "filter scheduled (trace (snd (startup_stage env s))) =
     filter scheduled (trace s) @ [EnterStage EXECUTOR_STARTUP]"
proof -
  have "filter scheduled (trace (snd (startup_stage env s))) =
     filter scheduled (trace s) @ filter scheduled [EnterStage EXECUTOR_STARTUP]"
    unfolding startup_stage_def run_security_checks_or_fail_def send_def
    by (rule then_enter_stage)
       ((intro preserves_intros preserves_emit preserves_call_runner); simp)
  then show ?thesis by simp
qed

lemma download_stage_scheduled:
  "filter scheduled (trace (snd (download_stage env s))) =
     filter scheduled (trace s) @ [EnterStage VOLUME_DOWNLOAD]"
proof -
  have "filter scheduled (trace (snd (download_stage env s))) =
     filter scheduled (trace s) @ filter scheduled [EnterStage VOLUME_DOWNLOAD]"
    unfolding download_stage_def send_def
    by (rule then_enter_stage)
       ((intro preserves_intros preserves_emit preserves_call_runner); simp)
  then show ?thesis by simp
qed

lemma execution_stage_scheduled:
  "filter scheduled (trace (snd (execution_stage env s))) =
     filter scheduled (trace s) @ [EnterStage EXECUTION]"
proof -
  have "filter scheduled (trace (snd (execution_stage env s))) =
     filter scheduled (trace s) @ filter scheduled [EnterStage EXECUTION]"
    unfolding execution_stage_def send_def
    by (rule then_enter_stage)
       ((intro preserves_intros preserves_emit preserves_call_runner
           fail_if_execution_unsuccessful_marked); simp)
  then show ?thesis by simp
qed

lemma upload_stage_scheduled:
  "filter scheduled (trace (snd (upload_stage env s))) =
     filter scheduled (trace s) @ [EnterStage RESULT_UPLOAD]"
proof -
  have "filter scheduled (trace (snd (upload_stage env s))) =
     filter scheduled (trace s) @ filter scheduled [EnterStage RESULT_UPLOAD]"
    unfolding upload_stage_def send_def
    by (rule then_enter_stage)
       ((intro preserves_intros preserves_emit preserves_call_runner); simp)
  then show ?thesis by simp
qed

lemma stage_timer:
  "preserves timer (startup_stage env)" "preserves timer (download_stage env)"
  "preserves timer (execution_stage env)" "preserves timer (upload_stage env)"
  unfolding startup_stage_def download_stage_def execution_stage_def upload_stage_def
    run_security_checks_or_fail_def send_def
  by ((intro preserves_intros preserves_emit preserves_call_runner preserves_enter_stage
        fail_if_execution_unsuccessful_marked); simp)+

text \<open>The bounded work of a stage: what except TimeoutError does to its outcome.\<close>

lemma except_TimeoutError_eq:
  "except_TimeoutError m e' s =
     (case fst (m s) of Inl TimeoutError \<Rightarrow> Inl e' | r \<Rightarrow> r, snd (m s))"
  by (cases "m s")
     (auto simp: except_TimeoutError_def try_except_def raise_def split: sum.splits exn.splits)


lemma bounded_timer:
  assumes "preserves timer stage"
  shows "filter timer (trace (snd (except_TimeoutError (wait_for expired stage) e' s))) =
           filter timer (trace s)"
  using preservesD [OF assms, of s]
  by (simp add: except_TimeoutError_eq wait_for_def raise_def)

lemma bounded_returns:
  assumes "except_TimeoutError (wait_for expired stage) e' s = (Inr x, s')"
  shows "stage s = (Inr x, s')"
  using assms
  by (cases "stage s")
     (auto simp: except_TimeoutError_eq wait_for_def raise_def split: if_splits sum.splits exn.splits)

lemma execute_download_eq:
  "execute_download env td s =
     except_TimeoutError (wait_for (download_expired env) (download_stage env))
       (new_JobError ''Download time exceeded'' TIMEOUT)
       (s\<lparr>trace := trace s @
            (case td of Some d \<Rightarrow> [ExtendTimeout (download_time_limit d)] | None \<Rightarrow> [])\<rparr>)"
  by (cases td)
     (simp_all add: execute_download_def then_io_def bind_io_def extend_deadline_def emit_def
        returns_def)

lemma execute_execution_eq:
  "execute_execution env td s =
     except_TimeoutError (wait_for (execution_expired env) (execution_stage env))
       (new_JobError ''Execution time exceeded'' TIMEOUT)
       (s\<lparr>trace := trace s @
            (case td of
               Some d \<Rightarrow>
                 ExtendTimeout (execution_time_limit d) #
                   (if is_streaming_job (runner s)
                    then [ExtendTimeout (streaming_start_time_limit d)] else [])
             | None \<Rightarrow> [])\<rparr>)"
  by (cases td)
     (simp_all add: execute_execution_def then_io_def bind_io_def extend_deadline_def emit_def
        returns_def gets_def)

lemma execute_upload_eq:
  "execute_upload env td s =
     except_TimeoutError (wait_for (upload_expired env) (upload_stage env))
       (new_JobError ''Upload time exceeded'' TIMEOUT)
       (s\<lparr>trace := trace s @
            (case td of Some d \<Rightarrow> [ExtendTimeout (upload_time_limit d)] | None \<Rightarrow> [])\<rparr>)"
  by (cases td)
     (simp_all add: execute_upload_def then_io_def bind_io_def extend_deadline_def emit_def
        returns_def)

lemma execute_startup_eq:
  "execute_startup env s =
     except_TimeoutError (startup_stage env)
       (new_HordeError ''Timed out waiting for initial job details from miner'' GENERIC_ERROR None)
       (s\<lparr>trace := trace s @ [SetTimeout (startup_time_limit env)]\<rparr>)"
  by (simp add: execute_startup_def then_io_def bind_io_def set_deadline_def emit_def)

lemma then_io_eq:
  "then_io m n s = (case m s of (Inl e, s') \<Rightarrow> (Inl e, s') | (Inr x, s') \<Rightarrow> n s')"
  by (simp add: then_io_def bind_io_def)

lemma stages_after_startup:
  assumes "execute_startup env s = (Inr req, s1)"
  shows "execute_stages env s =
     then_io (execute_timing req)
       (then_io (execute_download env (executor_timing req))
          (then_io (execute_execution env (executor_timing req))
             (execute_upload env (executor_timing req)))) s1"
  using assms by (simp add: execute_stages_def bind_io_def)

lemma startup_scheduled:
  assumes "execute_startup env s = (r, s1)"
  shows "filter scheduled (trace s1) =
     filter scheduled (trace s) @ [SetTimeout (startup_time_limit env), EnterStage EXECUTOR_STARTUP]"
  using assms startup_stage_scheduled [of env "s\<lparr>trace := trace s @ [SetTimeout (startup_time_limit env)]\<rparr>"]
  by (auto simp: execute_startup_eq except_TimeoutError_eq)

text \<open>The timer calls of the three later blocks, whatever their outcome.\<close>

lemma later_blocks_timer:
  "filter timer (trace (snd (execute_download env td s))) =
     filter timer (trace s) @
       (case td of Some d \<Rightarrow> [ExtendTimeout (download_time_limit d)] | None \<Rightarrow> [])"
  "filter timer (trace (snd (execute_execution env td s))) =
     filter timer (trace s) @
       (case td of
          Some d \<Rightarrow>
            ExtendTimeout (execution_time_limit d) #
              (if is_streaming_job (runner s)
               then [ExtendTimeout (streaming_start_time_limit d)] else [])
        | None \<Rightarrow> [])"
  "filter timer (trace (snd (execute_upload env td s))) =
     filter timer (trace s) @
       (case td of Some d \<Rightarrow> [ExtendTimeout (upload_time_limit d)] | None \<Rightarrow> [])"
  by (simp_all add: execute_download_eq execute_execution_eq execute_upload_eq
      bounded_timer stage_timer split: option.splits)

text \<open>The scheduled events of the three later blocks when they return.\<close>

lemma download_returns_scheduled:
  assumes "execute_download env td s = (Inr x, s')"
  shows "filter scheduled (trace s') =
     filter scheduled (trace s) @
       (case td of Some d \<Rightarrow> [ExtendTimeout (download_time_limit d)] | None \<Rightarrow> []) @
       [EnterStage VOLUME_DOWNLOAD]"
proof -
  let ?s0 = "s\<lparr>trace := trace s @
            (case td of Some d \<Rightarrow> [ExtendTimeout (download_time_limit d)] | None \<Rightarrow> [])\<rparr>"
  have "download_stage env ?s0 = (Inr x, s')"
    using assms unfolding execute_download_eq by (rule bounded_returns)
  then show ?thesis
    using download_stage_scheduled [of env ?s0] by (simp split: option.splits)
qed

lemma execution_returns_scheduled:
  assumes "execute_execution env td s = (Inr x, s')"
  shows "filter scheduled (trace s') =
     filter scheduled (trace s) @
       (case td of
          Some d \<Rightarrow>
            ExtendTimeout (execution_time_limit d) #
              (if is_streaming_job (runner s)
               then [ExtendTimeout (streaming_start_time_limit d)] else [])
        | None \<Rightarrow> []) @
       [EnterStage EXECUTION]"
proof -
  let ?s0 = "s\<lparr>trace := trace s @
            (case td of
               Some d \<Rightarrow>
                 ExtendTimeout (execution_time_limit d) #
                   (if is_streaming_job (runner s)
                    then [ExtendTimeout (streaming_start_time_limit d)] else [])
             | None \<Rightarrow> [])\<rparr>"
  have "execution_stage env ?s0 = (Inr x, s')"
    using assms unfolding execute_execution_eq by (rule bounded_returns)
  then show ?thesis
    using execution_stage_scheduled [of env ?s0] by (simp split: option.splits)
qed

lemma upload_returns_scheduled:
  assumes "execute_upload env td s = (Inr x, s')"
  shows "filter scheduled (trace s') =
     filter scheduled (trace s) @
       (case td of Some d \<Rightarrow> [ExtendTimeout (upload_time_limit d)] | None \<Rightarrow> []) @
       [EnterStage RESULT_UPLOAD]"
proof -
  let ?s0 = "s\<lparr>trace := trace s @
            (case td of Some d \<Rightarrow> [ExtendTimeout (upload_time_limit d)] | None \<Rightarrow> [])\<rparr>"
  have "upload_stage env ?s0 = (Inr x, s')"
    using assms unfolding execute_upload_eq by (rule bounded_returns)
  then show ?thesis
    using upload_stage_scheduled [of env ?s0] by (simp split: option.splits)
qed

text \<open>The three later blocks in sequence, from the state \<open>s\<close> in which the deadline was derived.\<close>

lemma later_blocks_timer_run:
  "\<exists>rest. filter timer (trace (snd (then_io (execute_download env td)
              (then_io (execute_execution env td) (execute_upload env td)) s))) =
     filter timer (trace s) @
       (case td of Some d \<Rightarrow> [ExtendTimeout (download_time_limit d)] | None \<Rightarrow> []) @ rest
     \<and> (td = None \<longrightarrow> rest = [])"
proof -
  obtain r3 s3 where d: "execute_download env td s = (r3, s3)"
    by (cases "execute_download env td s")
  obtain r4 s4 where e: "execute_execution env td s3 = (r4, s4)"
    by (cases "execute_execution env td s3")
  obtain r5 s5 where u: "execute_upload env td s4 = (r5, s5)"
    by (cases "execute_upload env td s4")
  have t3: "filter timer (trace s3) = filter timer (trace s) @
       (case td of Some d \<Rightarrow> [ExtendTimeout (download_time_limit d)] | None \<Rightarrow> [])"
    using later_blocks_timer(1) [of env td s] d by simp
  have t4: "filter timer (trace s4) = filter timer (trace s3) @
       (case td of
          Some d \<Rightarrow>
            ExtendTimeout (execution_time_limit d) #
              (if is_streaming_job (runner s3)
               then [ExtendTimeout (streaming_start_time_limit d)] else [])
        | None \<Rightarrow> [])"
    using later_blocks_timer(2) [of env td s3] e by simp
  have t5: "filter timer (trace s5) = filter timer (trace s4) @
       (case td of Some d \<Rightarrow> [ExtendTimeout (upload_time_limit d)] | None \<Rightarrow> [])"
    using later_blocks_timer(3) [of env td s4] u by simp
  show ?thesis
    using d e u t3 t4 t5
    by (cases r3; cases r4; cases td) (simp_all add: then_io_eq)
qed

lemma later_blocks_scheduled_run:
  assumes "then_io (execute_download env td)
              (then_io (execute_execution env td) (execute_upload env td)) s = (Inr x, s')"
  shows "\<exists>streaming. filter scheduled (trace s') =
     filter scheduled (trace s) @
       (case td of
          Some d \<Rightarrow>
            [ExtendTimeout (download_time_limit d), EnterStage VOLUME_DOWNLOAD,
             ExtendTimeout (execution_time_limit d)] @
            (if streaming then [ExtendTimeout (streaming_start_time_limit d)] else []) @
            [EnterStage EXECUTION, ExtendTimeout (upload_time_limit d), EnterStage RESULT_UPLOAD]
        | None \<Rightarrow> [EnterStage VOLUME_DOWNLOAD, EnterStage EXECUTION, EnterStage RESULT_UPLOAD])"
proof -
  obtain r3 s3 where d: "execute_download env td s = (r3, s3)"
    by (cases "execute_download env td s")
  obtain r4 s4 where e: "execute_execution env td s3 = (r4, s4)"
    by (cases "execute_execution env td s3")
  from assms d obtain x3 where r3: "r3 = Inr x3"
    by (cases r3) (simp_all add: then_io_eq)
  from assms d e r3 obtain x4 where r4: "r4 = Inr x4"
    by (cases r4) (simp_all add: then_io_eq)
  from assms d e r3 r4 have u: "execute_upload env td s4 = (Inr x, s')"
    by (simp add: then_io_eq)
  show ?thesis
    apply (rule exI [of _ "is_streaming_job (runner s3)"])
    using download_returns_scheduled [OF d [unfolded r3]]
      execution_returns_scheduled [OF e [unfolded r4]] upload_returns_scheduled [OF u]
    by (simp split: option.splits)
qed


text \<open>
  Claim C4. Consider any run whose startup block returned the initial request \<open>req\<close>.
  Up to there the timer was set once, to the startup time limit, before the startup
  stage was entered.
  \<^item> If \<open>req\<close> carries timing details, whatever its \<^verbatim>\<open>timeout_seconds\<close>, the deadline is
    set to the allowed leeway, and the next call of the timer extends it by the download
    time limit. In a run that completes, the calls of the timer and the entries into the
    stages are, in this order: the leeway set, the download extension, the download
    stage, the execution extension, for a streaming job the streaming start extension,
    the execution stage, the upload extension, the upload stage. In every state, each
    of the three later blocks is its bounded work run after its extension; the block of
    the execution stage extends by the streaming start limit too when the runner says
    the job is a streaming job.
  \<^item> If \<open>req\<close> carries \<^verbatim>\<open>timeout_seconds\<close> only, the deadline is set to it and the timer
    is not called again in the run.
  \<^item> If \<open>req\<close> carries neither, \<^verbatim>\<open>_execute\<close> raises a \<^verbatim>\<open>HordeError\<close> with the message
    \<^verbatim>\<open>No timing received: either timeout_seconds or timing_details must be set\<close>.
\<close>

theorem deadline_schedule:
  assumes "execute_startup env s = (Inr req, s1)"
  shows
    "filter scheduled (trace s1) =
       filter scheduled (trace s) @ [SetTimeout (startup_time_limit env), EnterStage EXECUTOR_STARTUP]
     \<and> (case executor_timing req of
          Some td \<Rightarrow>
            execute_timing req s1 = (Inr (), s1\<lparr>trace := trace s1 @ [SetTimeout (allowed_leeway td)]\<rparr>)
            \<and> (\<exists>rest. filter timer (trace (snd (execute_stages env s))) =
                  filter timer (trace s1) @
                    SetTimeout (allowed_leeway td) # ExtendTimeout (download_time_limit td) # rest)
            \<and> (\<forall>x s'. execute_stages env s = (Inr x, s') \<longrightarrow>
                  (\<exists>streaming. filter scheduled (trace s') =
                     filter scheduled (trace s1) @
                       [SetTimeout (allowed_leeway td),
                        ExtendTimeout (download_time_limit td), EnterStage VOLUME_DOWNLOAD,
                        ExtendTimeout (execution_time_limit td)] @
                       (if streaming then [ExtendTimeout (streaming_start_time_limit td)] else []) @
                       [EnterStage EXECUTION,
                        ExtendTimeout (upload_time_limit td), EnterStage RESULT_UPLOAD]))
            \<and> (\<forall>s'. execute_download env (Some td) s' =
                  except_TimeoutError (wait_for (download_expired env) (download_stage env))
                    (new_JobError ''Download time exceeded'' TIMEOUT)
                    (s'\<lparr>trace := trace s' @ [ExtendTimeout (download_time_limit td)]\<rparr>))
            \<and> (\<forall>s'. execute_execution env (Some td) s' =
                  except_TimeoutError (wait_for (execution_expired env) (execution_stage env))
                    (new_JobError ''Execution time exceeded'' TIMEOUT)
                    (s'\<lparr>trace := trace s' @
                          ExtendTimeout (execution_time_limit td) #
                          (if is_streaming_job (runner s')
                           then [ExtendTimeout (streaming_start_time_limit td)] else [])\<rparr>))
            \<and> (\<forall>s'. execute_upload env (Some td) s' =
                  except_TimeoutError (wait_for (upload_expired env) (upload_stage env))
                    (new_JobError ''Upload time exceeded'' TIMEOUT)
                    (s'\<lparr>trace := trace s' @ [ExtendTimeout (upload_time_limit td)]\<rparr>))
        | None \<Rightarrow>
            (case timeout_seconds req of
               Some seconds \<Rightarrow>
                 execute_timing req s1 = (Inr (), s1\<lparr>trace := trace s1 @ [SetTimeout seconds]\<rparr>)
                 \<and> filter timer (trace (snd (execute_stages env s))) =
                     filter timer (trace s1) @ [SetTimeout seconds]
             | None \<Rightarrow>
                 execute_stages env s =
                   (Inl (HordeError
                      \<lparr>he_message =
                         ''No timing received: either timeout_seconds or timing_details must be set'',
                       he_reason = GENERIC_ERROR,
                       he_context = None\<rparr>), s1)))"
proof -
  let ?td = "executor_timing req"
  let ?later = "then_io (execute_download env ?td)
                  (then_io (execute_execution env ?td) (execute_upload env ?td))"
  have run: "execute_stages env s = then_io (execute_timing req) ?later s1"
    using assms by (rule stages_after_startup)
  have first: "filter scheduled (trace s1) =
       filter scheduled (trace s) @ [SetTimeout (startup_time_limit env), EnterStage EXECUTOR_STARTUP]"
    using assms by (rule startup_scheduled)
  show ?thesis
  proof (cases ?td)
    case (Some td)
    let ?s2 = "s1\<lparr>trace := trace s1 @ [SetTimeout (allowed_leeway td)]\<rparr>"
    have timing: "execute_timing req s1 = (Inr (), ?s2)"
      using Some by (simp add: execute_timing_def set_deadline_def emit_def)
    then have run2: "execute_stages env s = ?later ?s2"
      using run by (simp add: then_io_eq)
    obtain rest where rest: "filter timer (trace (snd (?later ?s2))) =
        filter timer (trace ?s2) @ [ExtendTimeout (download_time_limit td)] @ rest"
      using later_blocks_timer_run [of env ?td ?s2] Some by auto
    have all: "\<exists>rest. filter timer (trace (snd (execute_stages env s))) =
                  filter timer (trace s1) @
                    SetTimeout (allowed_leeway td) # ExtendTimeout (download_time_limit td) # rest"
      using rest by (simp add: run2)
    have ok: "\<exists>streaming. filter scheduled (trace s') =
                     filter scheduled (trace s1) @
                       [SetTimeout (allowed_leeway td),
                        ExtendTimeout (download_time_limit td), EnterStage VOLUME_DOWNLOAD,
                        ExtendTimeout (execution_time_limit td)] @
                       (if streaming then [ExtendTimeout (streaming_start_time_limit td)] else []) @
                       [EnterStage EXECUTION,
                        ExtendTimeout (upload_time_limit td), EnterStage RESULT_UPLOAD]"
      if "execute_stages env s = (Inr x, s')" for x s'
      using later_blocks_scheduled_run [of env ?td ?s2 x s'] that Some by (simp add: run2)
    show ?thesis
      using first timing all ok Some
      by (simp add: execute_download_eq execute_execution_eq execute_upload_eq)
  next
    case None
    show ?thesis
    proof (cases "timeout_seconds req")
      case (Some seconds)
      let ?s2 = "s1\<lparr>trace := trace s1 @ [SetTimeout seconds]\<rparr>"
      have timing: "execute_timing req s1 = (Inr (), ?s2)"
        using None Some by (simp add: execute_timing_def set_deadline_def emit_def)
      then have run2: "execute_stages env s = ?later ?s2"
        using run by (simp add: then_io_eq)
      have "filter timer (trace (snd (?later ?s2))) = filter timer (trace ?s2)"
        using later_blocks_timer_run [of env ?td ?s2] None by auto
      then show ?thesis using first timing None Some by (simp add: run2)
    next
      case none: None
      have "execute_timing req s1 =
          (Inl (new_HordeError
                  ''No timing received: either timeout_seconds or timing_details must be set''
                  GENERIC_ERROR None), s1)"
        using None none by (simp add: execute_timing_def raise_def)
      then show ?thesis
        using first None none by (simp add: run then_io_eq new_HordeError_def)
    qed
  qed
qed

text \<open>
  A streaming job whose initial request carries both timing details and
  \<^verbatim>\<open>timeout_seconds\<close>: the timing details govern the schedule.
\<close>

theorem deadline_schedule_witness:
  "executor_timing streaming_request = Some example_timing
   \<and> timeout_seconds streaming_request = Some 10
   \<and> fst (execute_startup streaming_env (JobDriver example_runner)) = Inr streaming_request
   \<and> filter scheduled (trace (snd (execute_stages streaming_env (JobDriver example_runner)))) =
       [SetTimeout 5, EnterStage EXECUTOR_STARTUP, SetTimeout 1,
        ExtendTimeout 2, EnterStage VOLUME_DOWNLOAD,
        ExtendTimeout 3, ExtendTimeout 4, EnterStage EXECUTION,
        ExtendTimeout 6, EnterStage RESULT_UPLOAD]"
proof -
  let ?s = "JobDriver example_runner"
  let ?s1 = "snd (execute_startup streaming_env ?s)"
  have req: "executor_timing streaming_request = Some example_timing"
    "timeout_seconds streaming_request = Some 10"
    by (simp_all add: streaming_request_def)
  have startup: "execute_startup streaming_env ?s = (Inr streaming_request, ?s1)"
    by (simp add: prod_eq_iff streaming_env_def streaming_request_def model_defs check_defs
        example_defs)
  have ok: "execute_stages streaming_env ?s =
      (Inr (), snd (execute_stages streaming_env ?s))"
    by (simp add: prod_eq_iff streaming_env_def streaming_request_def model_defs check_defs
        example_defs)
  have first: "filter scheduled (trace ?s1) = [SetTimeout 5, EnterStage EXECUTOR_STARTUP]"
    using deadline_schedule [OF startup]
    by (simp add: JobDriver_def streaming_env_def example_env_def)
  note schedule = deadline_schedule [OF startup, unfolded req option.case]
  from schedule ok obtain streaming where
    "filter scheduled (trace (snd (execute_stages streaming_env ?s))) =
       filter scheduled (trace ?s1) @
         [SetTimeout (allowed_leeway example_timing),
          ExtendTimeout (download_time_limit example_timing), EnterStage VOLUME_DOWNLOAD,
          ExtendTimeout (execution_time_limit example_timing)] @
         (if streaming then [ExtendTimeout (streaming_start_time_limit example_timing)] else []) @
         [EnterStage EXECUTION,
          ExtendTimeout (upload_time_limit example_timing), EnterStage RESULT_UPLOAD]"
    by blast
  then have sched:
    "filter scheduled (trace (snd (execute_stages streaming_env ?s))) =
       [SetTimeout 5, EnterStage EXECUTOR_STARTUP, SetTimeout 1,
        ExtendTimeout 2, EnterStage VOLUME_DOWNLOAD, ExtendTimeout 3] @
       (if streaming then [ExtendTimeout 4] else []) @
       [EnterStage EXECUTION, ExtendTimeout 6, EnterStage RESULT_UPLOAD]"
    by (simp add: first example_timing_def)
  have "ExtendTimeout 4 \<in> set (trace (snd (execute_stages streaming_env ?s)))"
    by (simp add: streaming_env_def streaming_request_def example_timing_def model_defs
        check_defs example_defs)
  then have "ExtendTimeout 4 \<in> set (filter scheduled (trace (snd (execute_stages streaming_env ?s))))"
    by simp
  then have streaming using sched by (auto split: if_splits)
  moreover have "fst (execute_startup streaming_env ?s) = Inr streaming_request"
    using startup by (metis fst_conv)
  ultimately show ?thesis using sched req by simp
qed

subsection \<open>Deadline expiry\<close>




text \<open>Only the entry into a stage changes \<^verbatim>\<open>current_stage\<close>.\<close>

named_theorems keeps_stage_intros

lemma keeps_stage_returns [keeps_stage_intros]: "keeps_stage (returns x)"
  by (simp add: keeps_stage_def returns_def)

lemma keeps_stage_raise [keeps_stage_intros]: "keeps_stage (raise e)"
  by (simp add: keeps_stage_def raise_def)

lemma keeps_stage_await [keeps_stage_intros]: "keeps_stage (await r)"
  by (simp add: keeps_stage_def await_def)

lemma keeps_stage_gets [keeps_stage_intros]: "keeps_stage (gets f)"
  by (simp add: keeps_stage_def gets_def)

lemma keeps_stage_set_specs [keeps_stage_intros]: "keeps_stage (set_specs sp)"
  by (simp add: keeps_stage_def set_specs_def)

lemma keeps_stage_emit [keeps_stage_intros]: "keeps_stage (emit ev)"
  by (simp add: keeps_stage_def emit_def)

lemma keeps_stage_send [keeps_stage_intros]: "keeps_stage (send m)"
  by (simp add: send_def keeps_stage_emit)

lemma keeps_stage_call_runner [keeps_stage_intros]: "keeps_stage (call_runner c f)"
  by (simp add: keeps_stage_def call_runner_def split: prod.splits)

lemma keeps_stage_fail_if_execution_unsuccessful [keeps_stage_intros]:
  "keeps_stage fail_if_execution_unsuccessful"
  by (simp add: keeps_stage_def fail_if_execution_unsuccessful_state)

lemma keeps_stage_bind [keeps_stage_intros]:
  assumes "keeps_stage m" and "\<And>x. keeps_stage (f x)"
  shows "keeps_stage (bind_io m f)"
  unfolding keeps_stage_def
proof
  fix s
  obtain r s1 where ms: "m s = (r, s1)" by (cases "m s")
  have m: "current_stage s1 = current_stage s"
    using assms(1) ms by (auto simp: keeps_stage_def dest: spec [of _ s])
  show "current_stage (snd (bind_io m f s)) = current_stage s"
  proof (cases r)
    case (Inl e)
    with ms m show ?thesis by (simp add: bind_io_def)
  next
    case (Inr x)
    have "current_stage (snd (f x s1)) = current_stage s1"
      using assms(2) [of x] by (simp add: keeps_stage_def)
    with ms Inr m show ?thesis by (simp add: bind_io_def)
  qed
qed

lemma keeps_stage_then [keeps_stage_intros]:
  "keeps_stage m \<Longrightarrow> keeps_stage n \<Longrightarrow> keeps_stage (then_io m n)"
  by (simp add: then_io_def keeps_stage_bind)

lemma keeps_stage_if [keeps_stage_intros]:
  "keeps_stage m \<Longrightarrow> keeps_stage n \<Longrightarrow> keeps_stage (if b then m else n)"
  by simp

lemma keeps_stage_case_option [keeps_stage_intros]:
  "keeps_stage m \<Longrightarrow> (\<And>x. keeps_stage (f x)) \<Longrightarrow>
   keeps_stage (case opt of None \<Rightarrow> m | Some x \<Rightarrow> f x)"
  by (cases opt) simp_all

lemma keeps_stage_with_start_job [keeps_stage_intros]:
  assumes "keeps_stage body"
  shows "keeps_stage (with_start_job env body)"
proof -
  have body: "current_stage (snd (body s)) = current_stage s" for s
    using assms by (simp add: keeps_stage_def)
  have "current_stage (snd (with_start_job env body s)) = current_stage s" for s
    apply (simp add: with_start_job_def call_runner_def split: prod.splits sum.splits)
    apply (auto dest: arg_cong [where f = "\<lambda>p. current_stage (snd p)"] simp: body)
    done
  then show ?thesis by (simp add: keeps_stage_def)
qed

lemma keeps_stage_security [keeps_stage_intros]:
  "keeps_stage (run_security_checks_or_fail env)"
  unfolding run_security_checks_or_fail_def by (intro keeps_stage_intros)



lemma bounded_stage:
  "current_stage (snd (except_TimeoutError (wait_for expired stage) e' s)) =
     (if expired then current_stage s else current_stage (snd (stage s)))"
  by (simp add: except_TimeoutError_eq wait_for_def raise_def)












subsection \<open>The streaming certificate\<close>

lemma certificate_call_simps [simp]:
  "\<not> certificate_call (SetTimeout x)" "\<not> certificate_call (ExtendTimeout x)"
  "\<not> certificate_call (EnterStage st)" "\<not> certificate_call (Send m)"
  "\<not> certificate_call (LogError e)" "\<not> certificate_call (CaptureException e)"
  "\<not> certificate_call (LogCleanupFailed e)"
  "certificate_call (Runner (GenerateStreamingCertificate ip key))"
  "\<not> certificate_call (Runner (PrepareInitial request))"
  by (simp_all add: certificate_call_def)

lemma run_security_checks_or_fail_await:
  "\<exists>outcome. run_security_checks_or_fail env = await outcome"
proof (cases "run_cve_2022_0492_check_or_fail (cve_2022_0492_container env)")
  case (Inl e)
  then have "run_security_checks_or_fail env = await (Inl e)"
    by (simp add: fun_eq_iff run_security_checks_or_fail_def then_io_def bind_io_def await_def)
  then show ?thesis by blast
next
  case (Inr x)
  then have "run_security_checks_or_fail env =
      await (if \<not> DEBUG_NO_GPU_MODE env
             then run_nvidia_toolkit_version_check_or_fail (nvidia_toolkit_container env)
             else Inr ())"
    by (simp add: fun_eq_iff run_security_checks_or_fail_def then_io_def bind_io_def await_def
        returns_def)
  then show ?thesis by blast
qed

text \<open>
  Claim C8, as the code has it. Take a startup stage whose initial request asks for
  streaming. The stage asserts \<^verbatim>\<open>executor_ip\<close> only.
  \<^item> Without an \<^verbatim>\<open>executor_ip\<close> the stage does not return and never calls
    \<^verbatim>\<open>generate_streaming_certificate\<close>; if it got as far as sending the ready message,
    it raises \<^verbatim>\<open>AssertionError\<close>.
  \<^item> With an \<^verbatim>\<open>executor_ip\<close>, a stage that returns has called, as its last action,
    \<^verbatim>\<open>generate_streaming_certificate\<close> with that address and with the \<^verbatim>\<open>public_key\<close> of
    the request as it is, present or not; the stage never stops at the ready message,
    so the assertion does not fail; and the stage makes no other call of the runner's
    certificate method.
\<close>

theorem startup_stage_streaming_certificate:
  assumes "initial_msg env = Inr req" and "streaming_details req = Some details"
    and "startup_stage env s = (r, s')"
  shows "case executor_ip details of
           None \<Rightarrow>
             (\<forall>x. r \<noteq> Inr x)
             \<and> filter certificate_call (trace s') = filter certificate_call (trace s)
             \<and> (last (trace s') = Send V0ExecutorReadyRequest \<longrightarrow> r = Inl (AssertionError []))
         | Some ip \<Rightarrow>
             (\<forall>x. r = Inr x \<longrightarrow>
                x = req \<and>
                last (trace s') = Runner (GenerateStreamingCertificate ip (public_key details)))
             \<and> last (trace s') \<noteq> Send V0ExecutorReadyRequest
             \<and> (filter certificate_call (trace s') = filter certificate_call (trace s)
                \<or> filter certificate_call (trace s') =
                    filter certificate_call (trace s) @
                      [Runner (GenerateStreamingCertificate ip (public_key details))])"
proof -
  obtain outcome where checks: "run_security_checks_or_fail env = await outcome"
    using run_security_checks_or_fail_await by blast
  show ?thesis
    using assms
    by (auto simp: checks startup_stage_def then_io_def bind_io_def enter_stage_def await_def
        set_specs_def returns_def raise_def call_runner_def send_def emit_def
        split: sum.splits prod.splits option.splits if_splits)
qed


text \<open>A request that supplies both the address and the key.\<close>

theorem startup_stage_streaming_certificate_witness:
  "initial_msg streaming_env = Inr streaming_request
   \<and> streaming_details streaming_request =
       Some \<lparr>executor_ip = Some ''127.0.0.1'', public_key = Some ''key''\<rparr>
   \<and> fst (startup_stage streaming_env (JobDriver example_runner)) = Inr streaming_request
   \<and> last (trace (snd (startup_stage streaming_env (JobDriver example_runner)))) =
       Runner (GenerateStreamingCertificate ''127.0.0.1'' (Some ''key''))"
proof -
  let ?s = "JobDriver example_runner"
  let ?details = "\<lparr>executor_ip = Some ''127.0.0.1'', public_key = Some ''key''\<rparr>"
  have h1: "initial_msg streaming_env = Inr streaming_request"
    by (simp add: streaming_env_def)
  have h2: "streaming_details streaming_request = Some ?details"
    by (simp add: streaming_request_def)
  have f3: "fst (startup_stage streaming_env ?s) = Inr streaming_request"
    by (simp add: streaming_env_def streaming_request_def model_defs check_defs example_defs)
  then have h3: "startup_stage streaming_env ?s =
      (Inr streaming_request, snd (startup_stage streaming_env ?s))"
    by (simp add: prod_eq_iff)
  from startup_stage_streaming_certificate [OF h1 h2 h3]
  have "last (trace (snd (startup_stage streaming_env ?s))) =
       Runner (GenerateStreamingCertificate ''127.0.0.1'' (Some ''key''))"
    by simp
  with h1 h2 f3 show ?thesis by simp
qed

text \<open>
  A request that supplies the address and no key: nothing is asserted about the key, the
  stage returns, and the certificate is generated with no key.
\<close>

theorem startup_stage_public_key_unchecked:
  "initial_msg keyless_env = Inr keyless_request
   \<and> streaming_details keyless_request =
       Some \<lparr>executor_ip = Some ''127.0.0.1'', public_key = None\<rparr>
   \<and> fst (startup_stage keyless_env (JobDriver example_runner)) = Inr keyless_request
   \<and> last (trace (snd (startup_stage keyless_env (JobDriver example_runner)))) =
       Runner (GenerateStreamingCertificate ''127.0.0.1'' None)"
  by (simp add: keyless_env_def keyless_request_def model_defs check_defs example_defs)

end
